theory Spec2Isabelle
  imports Main
begin

section \<open>Timer-triggered export of a MongoDB collection to a CSV blob\<close>

text \<open>
  The repository is one file, \<^verbatim>\<open>src/index.js\<close>: an Azure timer-triggered function that
  connects to MongoDB (with retries), fetches every document of a collection, encodes the
  documents as CSV and uploads the text as a blob. The embedding below follows that file
  function by function. Everything outside the file (the MongoDB driver, the blob storage
  client, the CSV library, the timer, the clock) is a collaborator: a function on an
  abstract world \<open>'w\<close> that returns either a thrown error or a value, together with the
  new world. A trace of events, kept beside the world, plays the part of a test spy: it
  records every collaborator call with its outcome, every delay and every log line, in the
  order in which the code makes them.
\<close>

subsection \<open>Thrown values\<close>

text \<open>
  \<^verbatim>\<open>
  class CustomError extends Error {
      constructor(message, type) {
          super(message);
          this.name = this.constructor.name;
          this.type = type;
      }
  }
  \<close>
  \<open>lib_error\<close> is an \<^verbatim>\<open>Error\<close> object thrown by a library or by the runtime, with its
  \<^verbatim>\<open>name\<close>, \<^verbatim>\<open>message\<close> and \<^verbatim>\<open>stack\<close>. \<open>CustomError\<close> is an instance of the class above,
  with its \<^verbatim>\<open>message\<close>, its \<^verbatim>\<open>type\<close> and its \<^verbatim>\<open>stack\<close>; its \<^verbatim>\<open>name\<close> is the name of the
  class. The class is not exported, so no collaborator can throw one. Thrown values are
  taken to be error objects (what the libraries used here throw).
\<close>

datatype lib_error = LibError (lib_name: string) (lib_message: string) (lib_stack: string)

datatype js_error =
    Thrown lib_error
  | CustomError (custom_message: string) (custom_type: string) (custom_stack: string)

fun err_message :: "js_error \<Rightarrow> string" where
  "err_message (Thrown e) = lib_message e"
| "err_message (CustomError m t s) = m"

fun err_stack :: "js_error \<Rightarrow> string" where
  "err_stack (Thrown e) = lib_stack e"
| "err_stack (CustomError m t s) = s"

fun err_name :: "js_error \<Rightarrow> string" where
  "err_name (Thrown e) = lib_name e"
| "err_name (CustomError m t s) = ''CustomError''"

fun instanceof_CustomError :: "js_error \<Rightarrow> bool" where
  "instanceof_CustomError (Thrown e) = False"
| "instanceof_CustomError (CustomError m t s) = True"

subsection \<open>The spy trace\<close>

datatype call_name =
    Operation
  | MongoClientNew
  | ClientConnect
  | ClientDb
  | DbCollection
  | FindToArray
  | FromConnectionString
  | GetContainerClient
  | ContainerExists
  | GetBlockBlobClient
  | UploadStream
  | ClientClose

text \<open>What the spy saw of a call: that it threw, or what it gave back.\<close>

datatype observed =
    Threw js_error
  | Gave
  | GaveBool bool
  | GaveCount nat

datatype event =
    Called call_name observed
  | Sleep nat
  | Log string
  | LogError string

record 'w state =
  world :: 'w
  trace :: "event list"

text \<open>
  Sequencing of steps that may throw: \<open>seq m f\<close> runs \<open>m\<close> and, unless it threw, runs
  \<open>f\<close> on its value. \<open>ret\<close> gives a value, \<open>throw\<close> throws, \<open>log\<close> is \<^verbatim>\<open>context.log\<close> and
  \<open>log_error\<close> is \<^verbatim>\<open>context.log.error\<close>.
\<close>

definition seq :: "('s \<Rightarrow> ('e + 'a) \<times> 's) \<Rightarrow> ('a \<Rightarrow> 's \<Rightarrow> ('e + 'b) \<times> 's) \<Rightarrow> 's \<Rightarrow> ('e + 'b) \<times> 's" where
  "seq m f s = (case m s of (Inl e, s') \<Rightarrow> (Inl e, s') | (Inr v, s') \<Rightarrow> f v s')"

definition ret :: "'a \<Rightarrow> 's \<Rightarrow> ('e + 'a) \<times> 's" where
  "ret v s = (Inr v, s)"

definition throw :: "'e \<Rightarrow> 's \<Rightarrow> ('e + 'a) \<times> 's" where
  "throw e s = (Inl e, s)"

definition log :: "string \<Rightarrow> ('w, 'z) state_scheme \<Rightarrow> (js_error + unit) \<times> ('w, 'z) state_scheme" where
  "log msg st = (Inr (), st\<lparr>trace := trace st @ [Log msg]\<rparr>)"

definition log_error :: "string \<Rightarrow> ('w, 'z) state_scheme \<Rightarrow> (js_error + unit) \<times> ('w, 'z) state_scheme" where
  "log_error msg st = (Inr (), st\<lparr>trace := trace st @ [LogError msg]\<rparr>)"

text \<open>
  \<^verbatim>\<open>try { body } catch (error) { handler }\<close> and
  \<^verbatim>\<open>try { body } catch (error) { handler } finally { finalizer }\<close>, for a finalizer that
  holds no \<^verbatim>\<open>return\<close>: the finalizer runs on every path, and an error thrown by the
  handler or by the finalizer leaves the statement.
\<close>

definition try_catch ::
  "('s \<Rightarrow> ('e + 'a) \<times> 's) \<Rightarrow> ('e \<Rightarrow> 's \<Rightarrow> ('e + 'a) \<times> 's) \<Rightarrow> 's \<Rightarrow> ('e + 'a) \<times> 's" where
  "try_catch body handler s =
     (case body s of (Inl error, s') \<Rightarrow> handler error s' | (Inr v, s') \<Rightarrow> (Inr v, s'))"

definition try_catch_finally ::
  "('s \<Rightarrow> ('e + 'a) \<times> 's) \<Rightarrow> ('e \<Rightarrow> 's \<Rightarrow> ('e + 'a) \<times> 's) \<Rightarrow> ('s \<Rightarrow> ('e + unit) \<times> 's) \<Rightarrow>
   's \<Rightarrow> ('e + 'a) \<times> 's" where
  "try_catch_finally body handler finalizer s =
     (case try_catch body handler s of
        (r, s') \<Rightarrow> (case finalizer s' of (Inl e, s'') \<Rightarrow> (Inl e, s'') | (Inr u, s'') \<Rightarrow> (r, s'')))"

text \<open>
  \<open>call n see f\<close> runs \<open>f\<close> on the world and records the call \<open>n\<close> with what \<open>see\<close>
  shows of its result; an error is thrown on as it is. \<open>lib f\<close> is a library function
  \<open>f\<close>, whose errors are library errors.
\<close>

definition call ::
  "call_name \<Rightarrow> ('a \<Rightarrow> observed) \<Rightarrow> ('w \<Rightarrow> (js_error + 'a) \<times> 'w) \<Rightarrow>
   ('w, 'z) state_scheme \<Rightarrow> (js_error + 'a) \<times> ('w, 'z) state_scheme" where
  "call n see f st =
     (case f (world st) of
        (Inl e, w') \<Rightarrow> (Inl e, st\<lparr>world := w', trace := trace st @ [Called n (Threw e)]\<rparr>)
      | (Inr v, w') \<Rightarrow> (Inr v, st\<lparr>world := w', trace := trace st @ [Called n (see v)]\<rparr>))"

definition lib :: "('w \<Rightarrow> (lib_error + 'a) \<times> 'w) \<Rightarrow> 'w \<Rightarrow> (js_error + 'a) \<times> 'w" where
  "lib f w = (case f w of (Inl e, w') \<Rightarrow> (Inl (Thrown e), w') | (Inr v, w') \<Rightarrow> (Inr v, w'))"

definition gave :: "'a \<Rightarrow> observed" where
  "gave v = Gave"

text \<open>
  \<open>sleep setTimeout delay\<close> is \<^verbatim>\<open>await new Promise(resolve => setTimeout(resolve, delay))\<close>:
  the timer lets the world move on, and the spy records the delay.
\<close>

definition sleep ::
  "(nat \<Rightarrow> 'w \<Rightarrow> 'w) \<Rightarrow> nat \<Rightarrow> ('w, 'z) state_scheme \<Rightarrow> ('w, 'z) state_scheme" where
  "sleep setTimeout delay st =
     st\<lparr>world := setTimeout delay (world st), trace := trace st @ [Sleep delay]\<rparr>"

definition calls_of :: "call_name \<Rightarrow> event list \<Rightarrow> nat" where
  "calls_of n tr = length (filter (\<lambda>ev. case ev of Called m ob \<Rightarrow> m = n | _ \<Rightarrow> False) tr)"

definition sleeps_of :: "event list \<Rightarrow> nat" where
  "sleeps_of tr = length (filter (\<lambda>ev. case ev of Sleep d \<Rightarrow> True | _ \<Rightarrow> False) tr)"

text \<open>
  Two vocabularies of events: what the connection attempts can leave in the trace, and what
  the statements after the connection can leave there before an error is handled.
\<close>

fun connect_event :: "event \<Rightarrow> bool" where
  "connect_event (Called n ob) = (n = MongoClientNew \<or> n = ClientConnect)"
| "connect_event (Sleep d) = True"
| "connect_event (Log m) = False"
| "connect_event (LogError m) = False"

fun export_event :: "event \<Rightarrow> bool" where
  "export_event (Called n ob) =
     (n = ClientDb \<or> n = DbCollection \<or> n = FindToArray \<or> n = FromConnectionString \<or>
      n = GetContainerClient \<or> n = ContainerExists \<or> n = GetBlockBlobClient \<or> n = UploadStream)"
| "export_event (Sleep d) = False"
| "export_event (Log m) = True"
| "export_event (LogError m) = False"

fun close_call :: "event \<Rightarrow> bool" where
  "close_call (Called n ob) = (n = ClientClose)"
| "close_call (Sleep d) = False"
| "close_call (Log m) = False"
| "close_call (LogError m) = False"

subsection \<open>retryOperation\<close>

text \<open>
  \<^verbatim>\<open>
  const retryOperation = async (operation, maxRetries = 3, delay = 1000) => {
      for (let attempt = 1; attempt <= maxRetries; attempt++) {
          try {
              return await operation();
          } catch (error) {
              if (attempt === maxRetries) throw error;
              await new Promise(resolve => setTimeout(resolve, delay));
          }
      }
  };
  \<close>
  The loop is \<open>retry_loop\<close>, with the loop variable \<open>attempt\<close> as an argument. The result
  \<open>Inl error\<close> is the rejection with \<open>error\<close>, \<open>Inr (Some v)\<close> the value returned by
  \<open>operation\<close>, and \<open>Inr None\<close> the \<^verbatim>\<open>undefined\<close> of a function body that ends without a
  \<^verbatim>\<open>return\<close>. The first argument, \<open>wait\<close>, is the awaited timer promise.
\<close>

function retry_loop ::
  "(nat \<Rightarrow> 's \<Rightarrow> 's) \<Rightarrow> ('s \<Rightarrow> ('e + 'a) \<times> 's) \<Rightarrow> int \<Rightarrow> nat \<Rightarrow> int \<Rightarrow> 's \<Rightarrow>
   ('e + 'a option) \<times> 's" where
  "retry_loop wait operation maxRetries delay attempt s =
     (if attempt \<le> maxRetries then
        (case operation s of
           (Inr v, s') \<Rightarrow> (Inr (Some v), s')
         | (Inl error, s') \<Rightarrow>
             if attempt = maxRetries then (Inl error, s')
             else retry_loop wait operation maxRetries delay (attempt + 1) (wait delay s'))
      else (Inr None, s))"
  by pat_completeness auto
termination
  by (relation "measure (\<lambda>(wait, operation, maxRetries, delay, attempt, s).
        nat (maxRetries - attempt + 1))") auto

declare retry_loop.simps [simp del]

definition retryOperation ::
  "(nat \<Rightarrow> 's \<Rightarrow> 's) \<Rightarrow> ('s \<Rightarrow> ('e + 'a) \<times> 's) \<Rightarrow> int \<Rightarrow> nat \<Rightarrow> 's \<Rightarrow> ('e + 'a option) \<times> 's" where
  "retryOperation wait operation maxRetries delay s =
     retry_loop wait operation maxRetries delay 1 s"

text \<open>
  \<open>fails_with tick d operation es w\<close> describes a run of failures: started in the world
  \<open>w\<close>, the operation fails with the errors \<open>es\<close>, one invocation after the other with the
  timer's delay \<open>d\<close> after each; the result is the world in which the next invocation
  would start, or \<open>None\<close> when the operation does not fail in this way.
\<close>

fun fails_with ::
  "(nat \<Rightarrow> 'w \<Rightarrow> 'w) \<Rightarrow> nat \<Rightarrow> ('w \<Rightarrow> (js_error + 'a) \<times> 'w) \<Rightarrow> js_error list \<Rightarrow> 'w \<Rightarrow>
   'w option" where
  "fails_with tick d operation [] w = Some w"
| "fails_with tick d operation (e # es) w =
     (case operation w of
        (Inl e', w') \<Rightarrow> if e' = e then fails_with tick d operation es (tick d w') else None
      | (Inr v, w') \<Rightarrow> None)"

subsection \<open>Documents and the CSV encoder\<close>

text \<open>
  A document is an object: its fields in the order \<^verbatim>\<open>Object.keys\<close> lists them. A field
  value is a number (an integer here) or a string; nested values are left out, their
  rendering being left open.
\<close>

datatype js_value = JNum int | JStr string

type_synonym document = "(string \<times> js_value) list"

definition Object_keys :: "document \<Rightarrow> string list" where
  "Object_keys d = map fst d"

definition dquote :: char where
  "dquote = CHR 0x22"

definition newline :: char where
  "newline = CHR 0x0A"

function show_nat :: "nat \<Rightarrow> string" where
  "show_nat n =
     (if n < 10 then [''0123456789'' ! n]
      else show_nat (n div 10) @ [''0123456789'' ! (n mod 10)])"
  by pat_completeness auto
termination
  by (relation "measure id") auto

declare show_nat.simps [simp del]

definition show_int :: "int \<Rightarrow> string" where
  "show_int i = (if i < 0 then ''-'' @ show_nat (nat (- i)) else show_nat (nat i))"

text \<open>
  Modelled from the spec: \<^verbatim>\<open>parse\<close> of the json2csv library, which the repository
  imports and does not contain. The spec gives: a header row of the column names, then one
  row per record; fields separated by commas; a column that a record lacks renders as an
  empty field; text is quoted in the RFC-4180 way (enclosed in double quotes, an embedded
  double quote doubled), as the header names of the example \<^verbatim>\<open>"a","b"\n1,2\n3,4\n\<close> are,
  numbers are written bare, and every line, the last one too, ends with a newline.
\<close>

definition quote :: "string \<Rightarrow> string" where
  "quote s = [dquote] @ concat (map (\<lambda>c. if c = dquote then [dquote, dquote] else [c]) s) @ [dquote]"

fun render_value :: "js_value \<Rightarrow> string" where
  "render_value (JNum n) = show_int n"
| "render_value (JStr s) = quote s"

definition cell :: "document \<Rightarrow> string \<Rightarrow> string" where
  "cell d f = (case map_of d f of None \<Rightarrow> [] | Some v \<Rightarrow> render_value v)"

fun join :: "string list \<Rightarrow> string" where
  "join [] = []"
| "join [x] = x"
| "join (x # y # ys) = x @ '','' @ join (y # ys)"

definition csv_header :: "string list \<Rightarrow> string" where
  "csv_header fields' = join (map quote fields')"

definition csv_row :: "string list \<Rightarrow> document \<Rightarrow> string" where
  "csv_row fields' d = join (map (cell d) fields')"

definition csv_lines :: "document list \<Rightarrow> string list \<Rightarrow> string list" where
  "csv_lines documents fields' = csv_header fields' # map (csv_row fields') documents"

definition unlines :: "string list \<Rightarrow> string" where
  "unlines ls = concat (map (\<lambda>l. l @ [newline]) ls)"

text \<open>
  Modelled from the spec: the text that \<^verbatim>\<open>parse(documents, { fields })\<close> of json2csv
  returns, the library not being part of the sources: the header line and the rows, each
  ended by a newline.
\<close>

definition json2csv_parse :: "document list \<Rightarrow> string list \<Rightarrow> string" where
  "json2csv_parse documents fields' = unlines (csv_lines documents fields')"

text \<open>A document is plain when no key and no string value of it holds a newline.\<close>

fun plain_value :: "js_value \<Rightarrow> bool" where
  "plain_value (JNum n) = True"
| "plain_value (JStr s) = (newline \<notin> set s)"

definition plain :: "document \<Rightarrow> bool" where
  "plain d = list_all (\<lambda>(k, v). newline \<notin> set k \<and> plain_value v) d"

subsection \<open>Collaborators\<close>

text \<open>
  Objects of the libraries (the client, the database, the collection, the container
  client and so on) are references. \<open>clock\<close> is \<^verbatim>\<open>new Date().toISOString()\<close>, \<open>timer\<close> is
  \<^verbatim>\<open>setTimeout\<close>, \<open>stack_trace\<close> is the stack text that an error constructed now
  receives, and \<open>parse\<close> is the CSV library's function, which is pure and may throw. The
  source calls no operation that would create a container, so there is none here.
\<close>

type_synonym handle = nat

record mongo_options =
  serverSelectionTimeoutMS :: nat
  connectTimeoutMS :: nat

record 'w collaborators =
  clock :: "'w \<Rightarrow> string"
  timer :: "nat \<Rightarrow> 'w \<Rightarrow> 'w"
  stack_trace :: "'w \<Rightarrow> string"
  mongo_client_new :: "string \<Rightarrow> mongo_options \<Rightarrow> 'w \<Rightarrow> (lib_error + handle) \<times> 'w"
  client_connect :: "handle \<Rightarrow> 'w \<Rightarrow> (lib_error + unit) \<times> 'w"
  client_db :: "handle \<Rightarrow> string \<Rightarrow> 'w \<Rightarrow> (lib_error + handle) \<times> 'w"
  db_collection :: "handle \<Rightarrow> string \<Rightarrow> 'w \<Rightarrow> (lib_error + handle) \<times> 'w"
  find_toArray :: "handle \<Rightarrow> 'w \<Rightarrow> (lib_error + document list) \<times> 'w"
  parse :: "document list \<Rightarrow> string list \<Rightarrow> lib_error + string"
  from_connection_string :: "string \<Rightarrow> 'w \<Rightarrow> (lib_error + handle) \<times> 'w"
  get_container_client :: "handle \<Rightarrow> string \<Rightarrow> 'w \<Rightarrow> (lib_error + handle) \<times> 'w"
  container_exists :: "handle \<Rightarrow> 'w \<Rightarrow> (lib_error + bool) \<times> 'w"
  get_block_blob_client :: "handle \<Rightarrow> string \<Rightarrow> 'w \<Rightarrow> (lib_error + handle) \<times> 'w"
  upload_stream :: "handle \<Rightarrow> string \<Rightarrow> nat \<Rightarrow> 'w \<Rightarrow> (lib_error + unit) \<times> 'w"
  client_close :: "handle \<Rightarrow> 'w \<Rightarrow> (lib_error + unit) \<times> 'w"

text \<open>\<^verbatim>\<open>process.env\<close>: a variable is absent or a string.\<close>

record process_env =
  MongoDBAtlasConnectionString :: "string option"
  DatabaseName :: "string option"
  CollectionName :: "string option"
  AzureBlobStorageConnectionString :: "string option"
  BlobContainerName :: "string option"

text \<open>\<open>falsy v\<close> is \<^verbatim>\<open>!v\<close>: \<^verbatim>\<open>undefined\<close> and the empty string are falsy.\<close>

definition falsy :: "string option \<Rightarrow> bool" where
  "falsy v = (case v of None \<Rightarrow> True | Some s \<Rightarrow> s = [])"

text \<open>The text of a variable; \<^verbatim>\<open>undefined\<close> prints as its name.\<close>

definition text_of :: "string option \<Rightarrow> string" where
  "text_of v = (case v of None \<Rightarrow> ''undefined'' | Some s \<Rightarrow> s)"

text \<open>The frame of one invocation: the state with the local variable \<^verbatim>\<open>client\<close>.\<close>

record 'w frame = "'w state" +
  client :: "handle option"

subsection \<open>The functions of the file\<close>

text \<open>
  \<^verbatim>\<open>
  const connectToMongoDB = async (connectionString, options) => {
      const client = new MongoClient(connectionString, options);
      await client.connect();
      return client;
  };
  \<close>
\<close>

definition connectToMongoDB ::
  "'w collaborators \<Rightarrow> string \<Rightarrow> mongo_options \<Rightarrow>
   ('w, 'z) state_scheme \<Rightarrow> (js_error + handle) \<times> ('w, 'z) state_scheme" where
  "connectToMongoDB co connectionString options =
     seq (call MongoClientNew gave (lib (mongo_client_new co connectionString options)))
       (\<lambda>c. seq (call ClientConnect gave (lib (client_connect co c)))
       (\<lambda>u. ret c))"

text \<open>
  \<^verbatim>\<open>
  const fetchDataFromMongoDB = async (collection) => {
      const documents = await collection.find({}).toArray();
      if (documents.length === 0) {
          throw new CustomError('No documents found in MongoDB', 'NoDataError');
      }
      return documents;
  };
  \<close>
\<close>

definition fetchDataFromMongoDB ::
  "'w collaborators \<Rightarrow> handle \<Rightarrow>
   ('w, 'z) state_scheme \<Rightarrow> (js_error + document list) \<times> ('w, 'z) state_scheme" where
  "fetchDataFromMongoDB co collection =
     seq (call FindToArray (\<lambda>ds. GaveCount (length ds)) (lib (find_toArray co collection)))
       (\<lambda>documents st.
          if length documents = 0 then
            throw (CustomError ''No documents found in MongoDB'' ''NoDataError''
                     (stack_trace co (world st))) st
          else ret documents st)"

text \<open>
  \<^verbatim>\<open>
  const generateCSV = (documents) => {
      const fields = Object.keys(documents[0]);
      return parse(documents, { fields });
  };
  \<close>
  On an empty array \<^verbatim>\<open>documents[0]\<close> is \<^verbatim>\<open>undefined\<close> and \<^verbatim>\<open>Object.keys\<close> throws a
  \<^verbatim>\<open>TypeError\<close>.
\<close>

definition generateCSV ::
  "'w collaborators \<Rightarrow> document list \<Rightarrow>
   ('w, 'z) state_scheme \<Rightarrow> (js_error + string) \<times> ('w, 'z) state_scheme" where
  "generateCSV co documents st =
     (case documents of
        [] \<Rightarrow> throw (Thrown (LibError ''TypeError'' ''Cannot convert undefined or null to object''
                        (stack_trace co (world st)))) st
      | d # ds \<Rightarrow>
          (let fields' = Object_keys d
           in case parse co documents fields' of
                Inl e \<Rightarrow> throw (Thrown e) st
              | Inr csv \<Rightarrow> ret csv st))"

text \<open>
  \<^verbatim>\<open>
  const uploadToBlob = async (containerClient, blobName, csv) => {
      const blockBlobClient = containerClient.getBlockBlobClient(blobName);
      const streamBuffer = Buffer.from(csv, 'utf-8');
      const readableStream = Readable.from(streamBuffer);
      await blockBlobClient.uploadStream(readableStream, streamBuffer.length);
  };
  \<close>
  A string is its bytes here, so the buffer is the text and its length the text's length.
\<close>

definition uploadToBlob ::
  "'w collaborators \<Rightarrow> handle \<Rightarrow> string \<Rightarrow> string \<Rightarrow>
   ('w, 'z) state_scheme \<Rightarrow> (js_error + unit) \<times> ('w, 'z) state_scheme" where
  "uploadToBlob co containerClient blobName csv =
     seq (call GetBlockBlobClient gave (lib (get_block_blob_client co containerClient blobName)))
       (\<lambda>blockBlobClient.
          call UploadStream gave (lib (upload_stream co blockBlobClient csv (length csv))))"

subsection \<open>The exported function\<close>

text \<open>
  The \<^verbatim>\<open>try\<close> block of \<^verbatim>\<open>module.exports\<close>, in two parts. \<open>try_block\<close> is its first
  statement, \<^verbatim>\<open>client = await retryOperation(() => connectToMongoDB(...))\<close>, followed
  by \<open>after_connect\<close>, the statements from the assignment to \<^verbatim>\<open>client\<close> on. The
  assignment happens only when \<^verbatim>\<open>retryOperation\<close> returned; reading \<^verbatim>\<open>client.db\<close> of
  an \<^verbatim>\<open>undefined\<close> client throws a \<^verbatim>\<open>TypeError\<close>.
\<close>

definition after_connect ::
  "'w collaborators \<Rightarrow> process_env \<Rightarrow> string \<Rightarrow> handle option \<Rightarrow>
   'w frame \<Rightarrow> (js_error + unit) \<times> 'w frame" where
  "after_connect co env timeStamp r =
     seq (\<lambda>fr. ret () (fr\<lparr>client := r\<rparr>))
     (\<lambda>u. seq (log ''Connected to MongoDB successfully'')
     (\<lambda>u. seq (\<lambda>fr. case client fr of
                  None \<Rightarrow> throw (Thrown (LibError ''TypeError''
                             ''Cannot read properties of undefined (reading 'db')''
                             (stack_trace co (world fr)))) fr
                | Some c \<Rightarrow> call ClientDb gave (lib (client_db co c (text_of (DatabaseName env)))) fr)
     (\<lambda>db. seq (call DbCollection gave (lib (db_collection co db (text_of (CollectionName env)))))
     (\<lambda>collection. seq (fetchDataFromMongoDB co collection)
     (\<lambda>documents. seq (log (''Retrieved '' @ show_nat (length documents) @ '' documents from MongoDB''))
     (\<lambda>u. seq (generateCSV co documents)
     (\<lambda>csv. seq (log (''Generated CSV with size: '' @ show_nat (length csv) @ '' bytes''))
     (\<lambda>u. seq (call FromConnectionString gave
                 (lib (from_connection_string co (text_of (AzureBlobStorageConnectionString env)))))
     (\<lambda>blobServiceClient. seq (call GetContainerClient gave
                 (lib (get_container_client co blobServiceClient (text_of (BlobContainerName env)))))
     (\<lambda>containerClient. seq (call ContainerExists GaveBool (lib (container_exists co containerClient)))
     (\<lambda>containerExists. seq (\<lambda>fr.
                  if \<not> containerExists then
                    throw (CustomError
                             (''Container '' @ [dquote] @ text_of (BlobContainerName env) @ [dquote]
                                @ '' does not exist'')
                             ''ContainerNotFoundError'' (stack_trace co (world fr))) fr
                  else ret () fr)
     (\<lambda>u. seq (uploadToBlob co containerClient (''data-export-'' @ timeStamp @ ''.csv'') csv)
     (\<lambda>u. seq (log (''CSV file uploaded successfully to Blob Storage: ''
                       @ ''data-export-'' @ timeStamp @ ''.csv''))
     (\<lambda>u. log ''Function execution completed successfully''))))))))))))))"

definition try_block ::
  "'w collaborators \<Rightarrow> process_env \<Rightarrow> string \<Rightarrow> 'w frame \<Rightarrow> (js_error + unit) \<times> 'w frame" where
  "try_block co env timeStamp =
     seq (retryOperation (sleep (timer co))
            (connectToMongoDB co (text_of (MongoDBAtlasConnectionString env))
               \<lparr>serverSelectionTimeoutMS = 5000, connectTimeoutMS = 10000\<rparr>) 3 1000)
       (after_connect co env timeStamp)"

text \<open>The \<^verbatim>\<open>catch (error)\<close> block: the error is classified and logged, and not thrown again.\<close>

fun err_type :: "js_error \<Rightarrow> string" where
  "err_type (Thrown e) = ''undefined''"
| "err_type (CustomError m t s) = t"

definition catch_block ::
  "js_error \<Rightarrow> ('w, 'z) state_scheme \<Rightarrow> (js_error + unit) \<times> ('w, 'z) state_scheme" where
  "catch_block error =
     seq (log_error (''Error occurred: '' @ err_message error))
     (\<lambda>u. seq (log_error (''Error stack: '' @ err_stack error))
     (\<lambda>u. if instanceof_CustomError error then
              log_error (''Custom error type: '' @ err_type error)
           else if err_name error = ''MongoServerSelectionError'' then
              log_error ''Failed to select a MongoDB server. Check your network settings and connection string.''
           else if err_name error = ''MongoNetworkError'' then
              log_error (''MongoDB network error. Ensure your MongoDB Atlas IP whitelist ''
                         @ ''includes your function app's IP address.'')
           else log_error ''An unexpected error occurred.''))"

text \<open>
  The \<^verbatim>\<open>finally\<close> block:
  \<^verbatim>\<open>
  if (client) {
      try {
          await client.close();
          context.log('MongoDB connection closed');
      } catch (closeError) {
          context.log.error(`Error occurred while closing MongoDB connection: ${closeError.message}`);
      }
  }
  \<close>
\<close>

definition finally_block :: "'w collaborators \<Rightarrow> 'w frame \<Rightarrow> (js_error + unit) \<times> 'w frame" where
  "finally_block co fr =
     (case client fr of
        None \<Rightarrow> ret () fr
      | Some c \<Rightarrow>
          try_catch
            (seq (call ClientClose gave (lib (client_close co c)))
               (\<lambda>u. log ''MongoDB connection closed''))
            (\<lambda>closeError. log_error
               (''Error occurred while closing MongoDB connection: '' @ err_message closeError))
            fr)"

text \<open>
  \<^verbatim>\<open>module.exports = async function (context, myTimer)\<close>. The result \<open>Inr ()\<close> is the
  promise fulfilled, \<open>Inl e\<close> the promise rejected with \<open>e\<close>. The repository holds a
  second copy of the function, which logs a few more progress lines and writes its error
  lines with \<^verbatim>\<open>context.log\<close>; its calls and their order are the same.
\<close>

definition module_exports ::
  "'w collaborators \<Rightarrow> process_env \<Rightarrow> 'w state \<Rightarrow> (js_error + unit) \<times> 'w state" where
  "module_exports co env st0 =
     (let timeStamp = clock co (world st0) in
      seq (log (''JavaScript timer trigger function started: '' @ timeStamp))
      (\<lambda>u. if falsy (MongoDBAtlasConnectionString env) \<or> falsy (DatabaseName env) \<or>
                falsy (CollectionName env) \<or> falsy (AzureBlobStorageConnectionString env) \<or>
                falsy (BlobContainerName env) then
              seq (log_error ''Missing required environment variables'') (\<lambda>u. ret ())
            else
              (\<lambda>st. case try_catch_finally (try_block co env timeStamp) catch_block
                            (finally_block co)
                            \<lparr>world = world st, trace = trace st, client = None\<rparr> of
                       (r, fr) \<Rightarrow> (r, \<lparr>world = world fr, trace = trace fr\<rparr>))) st0)"

subsection \<open>Test doubles\<close>

text \<open>
  Concrete collaborators for running the functions on examples. The world is a counter of
  the connection attempts made so far: \<open>double k documents exists close_ok\<close> refuses the
  first \<open>k\<close> connections, holds \<open>documents\<close> in the collection, answers \<open>exists\<close> to the
  existence probe and closes the connection without error when \<open>close_ok\<close> holds. The
  encoder of the double is \<open>json2csv_parse\<close>.
\<close>

definition refused :: lib_error where
  "refused = LibError ''MongoNetworkError'' ''connection refused'' ''at connect''"

definition close_failed :: lib_error where
  "close_failed = LibError ''MongoError'' ''socket already closed'' ''at close''"

definition double :: "nat \<Rightarrow> document list \<Rightarrow> bool \<Rightarrow> bool \<Rightarrow> nat collaborators" where
  "double k documents exists close_ok =
     \<lparr>clock = (\<lambda>w. ''2024-05-01T00:00:00.000Z''),
      timer = (\<lambda>d w. w),
      stack_trace = (\<lambda>w. ''at index.js''),
      mongo_client_new = (\<lambda>cs opts w. (Inr 1, w)),
      client_connect = (\<lambda>c w. (if w < k then Inl refused else Inr (), w + 1)),
      client_db = (\<lambda>c n w. (Inr 2, w)),
      db_collection = (\<lambda>c n w. (Inr 3, w)),
      find_toArray = (\<lambda>c w. (Inr documents, w)),
      parse = (\<lambda>ds fs. Inr (json2csv_parse ds fs)),
      from_connection_string = (\<lambda>cs w. (Inr 4, w)),
      get_container_client = (\<lambda>c n w. (Inr 5, w)),
      container_exists = (\<lambda>c w. (Inr exists, w)),
      get_block_blob_client = (\<lambda>c n w. (Inr 6, w)),
      upload_stream = (\<lambda>c text size w. (Inr (), w)),
      client_close = (\<lambda>c w. (if close_ok then Inr () else Inl close_failed, w))\<rparr>"

definition settings :: process_env where
  "settings =
     \<lparr>MongoDBAtlasConnectionString = Some ''mongodb+srv://cluster'',
      DatabaseName = Some ''shop'',
      CollectionName = Some ''orders'',
      AzureBlobStorageConnectionString = Some ''UseDevelopmentStorage=true'',
      BlobContainerName = Some ''exports''\<rparr>"

definition two_records :: "document list" where
  "two_records = [[(''a'', JNum 1), (''b'', JNum 2)], [(''a'', JNum 3), (''b'', JNum 4)]]"

text \<open>An operation that fails on its first \<open>k\<close> invocations, each time with another error.\<close>

definition flaky :: "nat \<Rightarrow> nat \<Rightarrow> (js_error + nat) \<times> nat" where
  "flaky k w =
     (if w < k then Inl (Thrown (LibError ''Error'' (''failure '' @ show_nat w) [])) else Inr w,
      w + 1)"

section \<open>Properties of retryOperation\<close>

lemma retry_step_fail:
  "operation s = (Inl e, s') \<Longrightarrow> attempt < m \<Longrightarrow>
   retry_loop wait operation m d attempt s = retry_loop wait operation m d (attempt + 1) (wait d s')"
  by (subst retry_loop.simps) simp

lemma retry_step_last:
  "operation s = (Inl e, s') \<Longrightarrow> retry_loop wait operation m d m s = (Inl e, s')"
  by (subst retry_loop.simps) simp

lemma retry_step_ok:
  "operation s = (Inr v, s') \<Longrightarrow> attempt \<le> m \<Longrightarrow>
   retry_loop wait operation m d attempt s = (Inr (Some v), s')"
  by (subst retry_loop.simps) simp

lemma retry_step_done:
  "m < attempt \<Longrightarrow> retry_loop wait operation m d attempt s = (Inr None, s)"
  by (subst retry_loop.simps) simp

lemma call_fail:
  "f (world st) = (Inl e, w') \<Longrightarrow>
   call n see f st = (Inl e, st\<lparr>world := w', trace := trace st @ [Called n (Threw e)]\<rparr>)"
  by (simp add: call_def)

lemma call_ok:
  "f (world st) = (Inr v, w') \<Longrightarrow>
   call n see f st = (Inr v, st\<lparr>world := w', trace := trace st @ [Called n (see v)]\<rparr>)"
  by (simp add: call_def)

lemma calls_of_append: "calls_of n (xs @ ys) = calls_of n xs + calls_of n ys"
  by (simp add: calls_of_def)

lemma calls_of_Cons:
  "calls_of n (ev # evs) =
     (case ev of Called m ob \<Rightarrow> if m = n then 1 else 0 | _ \<Rightarrow> 0) + calls_of n evs"
  by (simp add: calls_of_def split: event.splits)

lemma calls_of_Nil: "calls_of n [] = 0"
  by (simp add: calls_of_def)

lemma show_nat_digit: "n < 10 \<Longrightarrow> show_nat n = [''0123456789'' ! n]"
  by (subst show_nat.simps) simp

lemma sleeps_of_Cons:
  "sleeps_of (ev # evs) = (case ev of Sleep d \<Rightarrow> 1 | _ \<Rightarrow> 0) + sleeps_of evs"
  by (simp add: sleeps_of_def split: event.splits)

lemma sleeps_of_Nil: "sleeps_of [] = 0"
  by (simp add: sleeps_of_def)

text \<open>
  When the loop rejects, the failed call is the last event of the trace, and the calls
  made from attempt \<open>a\<close> on are \<open>m - a + 1\<close>.
\<close>

lemma retry_loop_failure:
  fixes operation :: "'w \<Rightarrow> (js_error + 'a) \<times> 'w" and st :: "('w, 'z) state_scheme"
  shows "retry_loop (sleep tick) (call Operation gave operation) m d a st = (Inl e, st') \<Longrightarrow>
   \<exists>evs w. trace st' = trace st @ evs @ [Called Operation (Threw e)] \<and>
         Called Operation Gave \<notin> set evs \<and>
         sleeps_of evs = calls_of Operation evs \<and>
         int (calls_of Operation evs) = m - a \<and>
         operation w = (Inl e, world st')"
proof (induction "sleep tick :: nat \<Rightarrow> ('w, 'z) state_scheme \<Rightarrow> ('w, 'z) state_scheme"
    "call Operation gave operation :: ('w, 'z) state_scheme \<Rightarrow> (js_error + 'a) \<times> ('w, 'z) state_scheme"
    m d a st rule: retry_loop.induct)
  case (1 m d a s)
  let ?op = "call Operation gave operation :: ('w, 'z) state_scheme \<Rightarrow> (js_error + 'a) \<times> ('w, 'z) state_scheme"
  from "1.prems" have le: "a \<le> m"
    by (subst (asm) retry_loop.simps) (simp split: if_splits)
  obtain r w' where ow: "operation (world s) = (r, w')"
    by (cases "operation (world s)")
  show ?case
  proof (cases r)
    case (Inr x)
    let ?s1 = "s\<lparr>world := w', trace := trace s @ [Called Operation Gave]\<rparr>"
    from ow Inr have c: "?op s = (Inr x, ?s1)"
      by (simp add: call_def gave_def)
    from retry_step_ok [where operation = ?op and s = s, OF c le] "1.prems"
    show ?thesis by simp
  next
    case (Inl x)
    let ?s1 = "s\<lparr>world := w', trace := trace s @ [Called Operation (Threw x)]\<rparr>"
    from Inl ow have c: "?op s = (Inl x, ?s1)"
      by (simp add: call_def)
    show ?thesis
    proof (cases "a = m")
      case True
      from retry_step_last [where operation = ?op and s = s, OF c] "1.prems" True
      have "x = e" "st' = ?s1" by auto
      with ow Inl True show ?thesis
        by (intro exI [of _ "[]"] exI [of _ "world s"]) (simp add: sleeps_of_Nil calls_of_Nil)
    next
      case False
      with le have lt: "a < m" by simp
      from retry_step_fail [where operation = ?op and s = s, OF c lt] "1.prems"
      have rec: "retry_loop (sleep tick) ?op m d (a + 1) (sleep tick d ?s1) = (Inl e, st')"
        by simp
      from "1.hyps" [OF le c [symmetric] refl False rec]
      obtain evs w where ih: "trace st' = trace (sleep tick d ?s1) @ evs @ [Called Operation (Threw e)]"
          "Called Operation Gave \<notin> set evs" "sleeps_of evs = calls_of Operation evs"
          "int (calls_of Operation evs) = m - (a + 1)" "operation w = (Inl e, world st')"
        by blast
      show ?thesis
        using ih
        by (intro exI [of _ "[Called Operation (Threw x), Sleep d] @ evs"] exI [of _ w])
           (simp add: sleep_def sleeps_of_Cons calls_of_Cons)
    qed
  qed
qed

lemma retry_three_failures:
  fixes operation :: "'w \<Rightarrow> (js_error + 'a) \<times> 'w" and st :: "('w, 'z) state_scheme"
  assumes "operation (world st) = (Inl e1, w1)"
      and "operation (tick d w1) = (Inl e2, w2)"
      and "operation (tick d w2) = (Inl e3, w3)"
  shows "retryOperation (sleep tick) (call Operation gave operation) 3 d st =
           (Inl e3, st\<lparr>world := w3, trace := trace st @
              [Called Operation (Threw e1), Sleep d,
               Called Operation (Threw e2), Sleep d,
               Called Operation (Threw e3)]\<rparr>) \<and>
         calls_of Operation
           [Called Operation (Threw e1), Sleep d,
            Called Operation (Threw e2), Sleep d,
            Called Operation (Threw e3)] = 3"
proof -
  let ?op = "call Operation gave operation :: ('w, 'z) state_scheme \<Rightarrow> _"
  let ?s1 = "st\<lparr>world := w1, trace := trace st @ [Called Operation (Threw e1)]\<rparr>"
  let ?s2 = "(sleep tick d ?s1)\<lparr>world := w2,
               trace := trace (sleep tick d ?s1) @ [Called Operation (Threw e2)]\<rparr>"
  let ?s3 = "(sleep tick d ?s2)\<lparr>world := w3,
               trace := trace (sleep tick d ?s2) @ [Called Operation (Threw e3)]\<rparr>"
  have c1: "?op st = (Inl e1, ?s1)"
    using assms(1) by (rule call_fail)
  have c2: "?op (sleep tick d ?s1) = (Inl e2, ?s2)"
    by (rule call_fail) (simp add: sleep_def assms(2))
  have c3: "?op (sleep tick d ?s2) = (Inl e3, ?s3)"
    by (rule call_fail) (simp add: sleep_def assms(3))
  have "retryOperation (sleep tick) ?op 3 d st =
          retry_loop (sleep tick) ?op 3 d 2 (sleep tick d ?s1)"
    unfolding retryOperation_def
    using retry_step_fail [where operation = ?op and s = st and attempt = 1 and m = 3, OF c1]
    by simp
  also have "\<dots> = retry_loop (sleep tick) ?op 3 d 3 (sleep tick d ?s2)"
    using retry_step_fail [where operation = ?op and s = "sleep tick d ?s1" and attempt = 2
        and m = 3, OF c2]
    by simp
  also have "\<dots> = (Inl e3, ?s3)"
    using retry_step_last [where operation = ?op and s = "sleep tick d ?s2", OF c3] by simp
  finally show ?thesis
    by (simp add: sleep_def calls_of_def)
qed

text \<open>
  C1. With \<open>maxRetries = 3\<close>, an operation that fails on each of its three invocations
  (the second and third made after a delay each) is invoked exactly three times, with two
  delays between the invocations, and \<open>retryOperation\<close> rejects with the error of the
  third invocation, whatever the errors of the first two were. For any \<open>maxRetries\<close>: when
  \<open>retryOperation\<close> rejects, the error is that of the last call of the run, that call was
  the \<open>maxRetries\<close>-th, no call succeeded, and every earlier call was followed by one delay.
\<close>

theorem retry_exhausted:
  fixes operation :: "'w \<Rightarrow> (js_error + 'a) \<times> 'w" and st :: "('w, 'z) state_scheme"
  shows "(operation (world st) = (Inl e1, w1) \<longrightarrow> operation (tick d w1) = (Inl e2, w2) \<longrightarrow>
          operation (tick d w2) = (Inl e3, w3) \<longrightarrow>
            retryOperation (sleep tick) (call Operation gave operation) 3 d st =
              (Inl e3, st\<lparr>world := w3, trace := trace st @
                 [Called Operation (Threw e1), Sleep d,
                  Called Operation (Threw e2), Sleep d,
                  Called Operation (Threw e3)]\<rparr>) \<and>
            calls_of Operation
              [Called Operation (Threw e1), Sleep d,
               Called Operation (Threw e2), Sleep d,
               Called Operation (Threw e3)] = 3) \<and>
         (\<forall>m e st'. retryOperation (sleep tick) (call Operation gave operation) m d st
                       = (Inl e, st') \<longrightarrow>
            (\<exists>evs w. trace st' = trace st @ evs @ [Called Operation (Threw e)] \<and>
               Called Operation Gave \<notin> set evs \<and>
               sleeps_of evs = calls_of Operation evs \<and>
               int (calls_of Operation evs) + 1 = m \<and>
               operation w = (Inl e, world st')))"
proof (intro conjI impI allI)
  assume a: "operation (world st) = (Inl e1, w1)" "operation (tick d w1) = (Inl e2, w2)"
    "operation (tick d w2) = (Inl e3, w3)"
  from retry_three_failures [where operation = operation and st = st and tick = tick and d = d,
      OF a]
  show "retryOperation (sleep tick) (call Operation gave operation) 3 d st =
              (Inl e3, st\<lparr>world := w3, trace := trace st @
                 [Called Operation (Threw e1), Sleep d,
                  Called Operation (Threw e2), Sleep d,
                  Called Operation (Threw e3)]\<rparr>)"
    and "calls_of Operation
              [Called Operation (Threw e1), Sleep d,
               Called Operation (Threw e2), Sleep d,
               Called Operation (Threw e3)] = 3"
    by blast+
next
  fix m e and st' :: "('w, 'z) state_scheme"
  assume "retryOperation (sleep tick) (call Operation gave operation) m d st = (Inl e, st')"
  from retry_loop_failure [OF this [unfolded retryOperation_def]]
  show "\<exists>evs w. trace st' = trace st @ evs @ [Called Operation (Threw e)] \<and>
               Called Operation Gave \<notin> set evs \<and>
               sleeps_of evs = calls_of Operation evs \<and>
               int (calls_of Operation evs) + 1 = m \<and>
               operation w = (Inl e, world st')"
    by fastforce
qed

theorem retry_exhausted_witness:
  "flaky 3 0 = (Inl (Thrown (LibError ''Error'' ''failure 0'' [])), 1) \<and>
   flaky 3 1 = (Inl (Thrown (LibError ''Error'' ''failure 1'' [])), 2) \<and>
   flaky 3 2 = (Inl (Thrown (LibError ''Error'' ''failure 2'' [])), 3) \<and>
   retryOperation (sleep (\<lambda>d w. w)) (call Operation gave (flaky 3)) 3 1000
       \<lparr>world = 0, trace = []\<rparr> =
     (Inl (Thrown (LibError ''Error'' ''failure 2'' [])),
      \<lparr>world = 3, trace =
         [Called Operation (Threw (Thrown (LibError ''Error'' ''failure 0'' []))), Sleep 1000,
          Called Operation (Threw (Thrown (LibError ''Error'' ''failure 1'' []))), Sleep 1000,
          Called Operation (Threw (Thrown (LibError ''Error'' ''failure 2'' [])))]\<rparr>) \<and>
   (\<exists>evs w.
      [Called Operation (Threw (Thrown (LibError ''Error'' ''failure 0'' []))), Sleep 1000,
       Called Operation (Threw (Thrown (LibError ''Error'' ''failure 1'' []))), Sleep 1000,
       Called Operation (Threw (Thrown (LibError ''Error'' ''failure 2'' [])))] =
        evs @ [Called Operation (Threw (Thrown (LibError ''Error'' ''failure 2'' [])))] \<and>
      Called Operation Gave \<notin> set evs \<and> sleeps_of evs = calls_of Operation evs \<and>
      int (calls_of Operation evs) + 1 = 3 \<and>
      flaky 3 w = (Inl (Thrown (LibError ''Error'' ''failure 2'' [])), 3))"
proof -
  have f: "flaky 3 0 = (Inl (Thrown (LibError ''Error'' ''failure 0'' [])), 1)"
    "flaky 3 1 = (Inl (Thrown (LibError ''Error'' ''failure 1'' [])), 2)"
    "flaky 3 2 = (Inl (Thrown (LibError ''Error'' ''failure 2'' [])), 3)"
    by (simp_all add: flaky_def show_nat_digit)
  note t = retry_exhausted [where operation = "flaky 3" and st = "\<lparr>world = 0, trace = []\<rparr>"
      and tick = "\<lambda>d w. w" and d = 1000 and ?w1.0 = 1 and ?w2.0 = 2 and ?w3.0 = 3
      and ?e1.0 = "Thrown (LibError ''Error'' ''failure 0'' [])"
      and ?e2.0 = "Thrown (LibError ''Error'' ''failure 1'' [])"
      and ?e3.0 = "Thrown (LibError ''Error'' ''failure 2'' [])"]
  from t f have run: "retryOperation (sleep (\<lambda>d w. w)) (call Operation gave (flaky 3)) 3 1000
       \<lparr>world = 0, trace = []\<rparr> =
     (Inl (Thrown (LibError ''Error'' ''failure 2'' [])),
      \<lparr>world = 3, trace =
         [Called Operation (Threw (Thrown (LibError ''Error'' ''failure 0'' []))), Sleep 1000,
          Called Operation (Threw (Thrown (LibError ''Error'' ''failure 1'' []))), Sleep 1000,
          Called Operation (Threw (Thrown (LibError ''Error'' ''failure 2'' [])))]\<rparr>)"
    by simp
  from t [THEN conjunct2, rule_format, OF run] f run show ?thesis by simp
qed

text \<open>
  Whenever the loop returns a value, the successful call is the last event of the trace:
  before it there are only failed calls, each followed by one delay.
\<close>

lemma retry_loop_success:
  fixes operation :: "'w \<Rightarrow> (js_error + 'a) \<times> 'w" and st :: "('w, 'z) state_scheme"
  shows "retry_loop (sleep tick) (call Operation gave operation) m d a st = (Inr (Some v), st') \<Longrightarrow>
   \<exists>evs w. trace st' = trace st @ evs @ [Called Operation Gave] \<and>
         Called Operation Gave \<notin> set evs \<and>
         sleeps_of evs = calls_of Operation evs \<and>
         int (calls_of Operation evs) \<le> m - a \<and>
         operation w = (Inr v, world st')"
proof (induction "sleep tick :: nat \<Rightarrow> ('w, 'z) state_scheme \<Rightarrow> ('w, 'z) state_scheme"
    "call Operation gave operation :: ('w, 'z) state_scheme \<Rightarrow> (js_error + 'a) \<times> ('w, 'z) state_scheme"
    m d a st rule: retry_loop.induct)
  case (1 m d a s)
  let ?op = "call Operation gave operation :: ('w, 'z) state_scheme \<Rightarrow> (js_error + 'a) \<times> ('w, 'z) state_scheme"
  from "1.prems" have le: "a \<le> m"
    by (subst (asm) retry_loop.simps) (simp split: if_splits)
  obtain r w' where ow: "operation (world s) = (r, w')"
    by (cases "operation (world s)")
  show ?case
  proof (cases r)
    case (Inr x)
    let ?s1 = "s\<lparr>world := w', trace := trace s @ [Called Operation Gave]\<rparr>"
    from ow Inr have c: "?op s = (Inr x, ?s1)"
      by (simp add: call_def gave_def)
    from retry_step_ok [where operation = ?op and s = s, OF c le] "1.prems"
    have "x = v" "st' = ?s1" by simp_all
    with ow Inr le show ?thesis
      by (intro exI [of _ "[]"] exI [of _ "world s"]) (simp add: sleeps_of_Nil calls_of_Nil)
  next
    case (Inl e)
    let ?s1 = "s\<lparr>world := w', trace := trace s @ [Called Operation (Threw e)]\<rparr>"
    from Inl ow have c: "?op s = (Inl e, ?s1)"
      by (simp add: call_def)
    have ne: "a \<noteq> m"
    proof
      assume "a = m"
      with retry_step_last [where operation = ?op and s = s, OF c] "1.prems" show False by simp
    qed
    with le have lt: "a < m" by simp
    from retry_step_fail [where operation = ?op and s = s, OF c lt] "1.prems"
    have rec: "retry_loop (sleep tick) ?op m d (a + 1) (sleep tick d ?s1) = (Inr (Some v), st')"
      by simp
    from "1.hyps" [OF le c [symmetric] refl ne rec]
    obtain evs w where ih: "trace st' = trace (sleep tick d ?s1) @ evs @ [Called Operation Gave]"
        "Called Operation Gave \<notin> set evs" "sleeps_of evs = calls_of Operation evs"
        "int (calls_of Operation evs) \<le> m - (a + 1)" "operation w = (Inr v, world st')"
      by blast
    show ?thesis
      using ih
      by (intro exI [of _ "[Called Operation (Threw e), Sleep d] @ evs"] exI [of _ w])
         (simp add: sleep_def sleeps_of_Cons calls_of_Cons)
  qed
qed

text \<open>
  A success after any run of failures ends the loop at once, and the loop gives
  \<^verbatim>\<open>undefined\<close> only when it makes no attempt.
\<close>

lemma retry_loop_after_failures:
  fixes operation :: "'w \<Rightarrow> (js_error + 'a) \<times> 'w" and st :: "('w, 'z) state_scheme"
  shows "fails_with tick d operation es (world st) = Some w \<Longrightarrow> operation w = (Inr v, w') \<Longrightarrow>
     a + int (length es) \<le> m \<Longrightarrow>
     retry_loop (sleep tick) (call Operation gave operation) m d a st =
       (Inr (Some v), st\<lparr>world := w', trace := trace st @
          concat (map (\<lambda>e. [Called Operation (Threw e), Sleep d]) es) @ [Called Operation Gave]\<rparr>)"
proof (induction es arbitrary: st a)
  case Nil
  let ?op = "call Operation gave operation :: ('w, 'z) state_scheme \<Rightarrow> _"
  from Nil have w: "w = world st" by simp
  with Nil have "operation (world st) = (Inr v, w')" by simp
  then have c: "?op st = (Inr v, st\<lparr>world := w', trace := trace st @ [Called Operation Gave]\<rparr>)"
    by (simp add: call_def gave_def)
  from Nil have le: "a \<le> m" by simp
  from retry_step_ok [where operation = ?op and s = st, OF c le]
  show ?case by simp
next
  case (Cons e es)
  let ?op = "call Operation gave operation :: ('w, 'z) state_scheme \<Rightarrow> _"
  from Cons.prems(1) obtain w1 where
    o: "operation (world st) = (Inl e, w1)" and
    f: "fails_with tick d operation es (tick d w1) = Some w"
    by (auto split: prod.splits sum.splits if_splits)
  let ?s1 = "st\<lparr>world := w1, trace := trace st @ [Called Operation (Threw e)]\<rparr>"
  from o have c: "?op st = (Inl e, ?s1)" by (rule call_fail)
  from Cons.prems(3) have lt: "a < m" by simp
  have f': "fails_with tick d operation es (world (sleep tick d ?s1)) = Some w"
    using f by (simp add: sleep_def)
  from Cons.prems(3) have le: "(a + 1) + int (length es) \<le> m" by simp
  from retry_step_fail [where operation = ?op and s = st, OF c lt]
    Cons.IH [OF f' Cons.prems(2) le]
  show ?case by (simp add: sleep_def)
qed

lemma retry_loop_undefined:
  "retry_loop wait operation m d a s = (Inr None, s') \<Longrightarrow> m < a"
proof (induction wait operation m d a s rule: retry_loop.induct)
  case (1 wait operation m d a s)
  show ?case
  proof (rule ccontr)
    assume "\<not> m < a"
    then have le: "a \<le> m" by simp
    obtain x s1 where op: "operation s = (x, s1)" by (cases "operation s")
    show False
    proof (cases x)
      case (Inr v)
      from retry_step_ok [where operation = operation and s = s, OF op [unfolded Inr] le] "1.prems" show False by simp
    next
      case (Inl e)
      show False
      proof (cases "a = m")
        case True
        from retry_step_last [where operation = operation and s = s, OF op [unfolded Inl]] "1.prems" True show False by simp
      next
        case False
        with le have lt: "a < m" by simp
        from retry_step_fail [where operation = operation and s = s, OF op [unfolded Inl] lt] "1.prems"
        have "retry_loop wait operation m d (a + 1) (wait d s1) = (Inr None, s')" by simp
        from "1.IH" [OF le op [symmetric] Inl False this] lt show False by simp
      qed
    qed
  qed
qed

text \<open>
  C2. With \<open>maxRetries = 3\<close>, an operation that fails twice and succeeds on its third
  invocation makes \<open>retryOperation\<close> return the value of the third invocation after exactly
  two delays. For any \<open>maxRetries\<close>: an invocation that succeeds at an attempt within
  \<open>maxRetries\<close> ends the loop with its value, with no further call and no further delay;
  so when the operation succeeds after fewer than \<open>maxRetries\<close> failures,
  \<open>retryOperation\<close> returns that value, having made one call per failure, each followed by
  one delay, and then the successful call, which is the last event. With \<open>maxRetries\<close> of 1
  or more the result is never \<^verbatim>\<open>undefined\<close>. And whenever \<open>retryOperation\<close> returns a
  value, the call that gave it is the last event of the run, no earlier call succeeded,
  every earlier call was followed by one delay, and fewer than \<open>maxRetries\<close> calls came
  before it.
\<close>

theorem retry_returns_on_success:
  fixes operation :: "'w \<Rightarrow> (js_error + 'a) \<times> 'w" and st :: "('w, 'z) state_scheme"
  shows "(operation (world st) = (Inl e1, w1) \<longrightarrow> operation (tick d w1) = (Inl e2, w2) \<longrightarrow>
          operation (tick d w2) = (Inr v, w3) \<longrightarrow>
            retryOperation (sleep tick) (call Operation gave operation) 3 d st =
              (Inr (Some v), st\<lparr>world := w3, trace := trace st @
                 [Called Operation (Threw e1), Sleep d,
                  Called Operation (Threw e2), Sleep d,
                  Called Operation Gave]\<rparr>) \<and>
            sleeps_of [Called Operation (Threw e1), Sleep d,
                       Called Operation (Threw e2), Sleep d,
                       Called Operation Gave] = 2) \<and>
         (\<forall>m r st'. retryOperation (sleep tick) (call Operation gave operation) m d st
                       = (Inr (Some r), st') \<longrightarrow>
            (\<exists>evs w. trace st' = trace st @ evs @ [Called Operation Gave] \<and>
               Called Operation Gave \<notin> set evs \<and>
               sleeps_of evs = calls_of Operation evs \<and>
               int (calls_of Operation evs) < m \<and>
               operation w = (Inr r, world st'))) \<and>
         (\<forall>m a r w' (s :: ('w, 'z) state_scheme).
            a \<le> m \<longrightarrow> operation (world s) = (Inr r, w') \<longrightarrow>
            retry_loop (sleep tick) (call Operation gave operation) m d a s =
              (Inr (Some r), s\<lparr>world := w', trace := trace s @ [Called Operation Gave]\<rparr>)) \<and>
         (\<forall>m es w r w'.
            fails_with tick d operation es (world st) = Some w \<longrightarrow>
            operation w = (Inr r, w') \<longrightarrow> int (length es) < m \<longrightarrow>
            retryOperation (sleep tick) (call Operation gave operation) m d st =
              (Inr (Some r), st\<lparr>world := w', trace := trace st @
                 concat (map (\<lambda>e. [Called Operation (Threw e), Sleep d]) es) @
                 [Called Operation Gave]\<rparr>)) \<and>
         (\<forall>m. 1 \<le> m \<longrightarrow>
            fst (retryOperation (sleep tick) (call Operation gave operation) m d st) \<noteq> Inr None)"
proof (intro conjI impI allI)
  let ?op = "call Operation gave operation :: ('w, 'z) state_scheme \<Rightarrow> _"
  assume a: "operation (world st) = (Inl e1, w1)" "operation (tick d w1) = (Inl e2, w2)"
    "operation (tick d w2) = (Inr v, w3)"
  let ?s1 = "st\<lparr>world := w1, trace := trace st @ [Called Operation (Threw e1)]\<rparr>"
  let ?s2 = "(sleep tick d ?s1)\<lparr>world := w2,
               trace := trace (sleep tick d ?s1) @ [Called Operation (Threw e2)]\<rparr>"
  let ?s3 = "(sleep tick d ?s2)\<lparr>world := w3,
               trace := trace (sleep tick d ?s2) @ [Called Operation (gave v)]\<rparr>"
  have c1: "?op st = (Inl e1, ?s1)"
    using a(1) by (rule call_fail)
  have c2: "?op (sleep tick d ?s1) = (Inl e2, ?s2)"
    by (rule call_fail) (simp add: sleep_def a(2))
  have c3: "?op (sleep tick d ?s2) = (Inr v, ?s3)"
    by (rule call_ok) (simp add: sleep_def a(3))
  have "retryOperation (sleep tick) ?op 3 d st =
          retry_loop (sleep tick) ?op 3 d 2 (sleep tick d ?s1)"
    unfolding retryOperation_def
    using retry_step_fail [where operation = ?op and s = st and attempt = 1 and m = 3, OF c1]
    by simp
  also have "\<dots> = retry_loop (sleep tick) ?op 3 d 3 (sleep tick d ?s2)"
    using retry_step_fail [where operation = ?op and s = "sleep tick d ?s1" and attempt = 2
        and m = 3, OF c2]
    by simp
  also have "\<dots> = (Inr (Some v), ?s3)"
    using retry_step_ok [where operation = ?op and s = "sleep tick d ?s2" and attempt = 3
        and m = 3, OF c3]
    by simp
  finally show "retryOperation (sleep tick) ?op 3 d st =
              (Inr (Some v), st\<lparr>world := w3, trace := trace st @
                 [Called Operation (Threw e1), Sleep d,
                  Called Operation (Threw e2), Sleep d,
                  Called Operation Gave]\<rparr>)"
    by (simp add: sleep_def gave_def)
  show "sleeps_of [Called Operation (Threw e1), Sleep d,
                   Called Operation (Threw e2), Sleep d,
                   Called Operation Gave] = 2"
    by (simp add: sleeps_of_def)
next
  fix m r and st' :: "('w, 'z) state_scheme"
  assume "retryOperation (sleep tick) (call Operation gave operation) m d st = (Inr (Some r), st')"
  from retry_loop_success [OF this [unfolded retryOperation_def]]
  show "\<exists>evs w. trace st' = trace st @ evs @ [Called Operation Gave] \<and>
               Called Operation Gave \<notin> set evs \<and>
               sleeps_of evs = calls_of Operation evs \<and>
               int (calls_of Operation evs) < m \<and>
               operation w = (Inr r, world st')"
    by fastforce
next
  fix m a :: int and r w' and s :: "('w, 'z) state_scheme"
  assume le: "a \<le> m" and o: "operation (world s) = (Inr r, w')"
  have f: "fails_with tick d operation [] (world s) = Some (world s)" by simp
  from le have "a + int (length ([] :: js_error list)) \<le> m" by simp
  from retry_loop_after_failures [OF f o this]
  show "retry_loop (sleep tick) (call Operation gave operation) m d a s =
          (Inr (Some r), s\<lparr>world := w', trace := trace s @ [Called Operation Gave]\<rparr>)"
    by simp
next
  fix m es w r w'
  assume f: "fails_with tick d operation es (world st) = Some w"
    and o: "operation w = (Inr r, w')" and n: "int (length es) < m"
  from n have "1 + int (length es) \<le> m" by simp
  from retry_loop_after_failures [OF f o this]
  show "retryOperation (sleep tick) (call Operation gave operation) m d st =
          (Inr (Some r), st\<lparr>world := w', trace := trace st @
             concat (map (\<lambda>e. [Called Operation (Threw e), Sleep d]) es) @
             [Called Operation Gave]\<rparr>)"
    by (simp only: retryOperation_def)
next
  fix m :: int
  assume m: "1 \<le> m"
  show "fst (retryOperation (sleep tick) (call Operation gave operation) m d st) \<noteq> Inr None"
  proof
    assume "fst (retryOperation (sleep tick) (call Operation gave operation) m d st) = Inr None"
    then have "retry_loop (sleep tick) (call Operation gave operation) m d 1 st =
        (Inr None, snd (retry_loop (sleep tick) (call Operation gave operation) m d 1 st))"
      unfolding retryOperation_def by (metis prod.collapse)
    from retry_loop_undefined [OF this] m show False by simp
  qed
qed

theorem retry_returns_on_success_witness:
  "flaky 2 0 = (Inl (Thrown (LibError ''Error'' ''failure 0'' [])), 1) \<and>
   flaky 2 1 = (Inl (Thrown (LibError ''Error'' ''failure 1'' [])), 2) \<and>
   flaky 2 2 = (Inr 2, 3) \<and>
   retryOperation (sleep (\<lambda>d w. w)) (call Operation gave (flaky 2)) 3 1000
       \<lparr>world = 0, trace = []\<rparr> =
     (Inr (Some 2),
      \<lparr>world = 3, trace =
         [Called Operation (Threw (Thrown (LibError ''Error'' ''failure 0'' []))), Sleep 1000,
          Called Operation (Threw (Thrown (LibError ''Error'' ''failure 1'' []))), Sleep 1000,
          Called Operation Gave]\<rparr>) \<and>
   (\<exists>evs w.
      [Called Operation (Threw (Thrown (LibError ''Error'' ''failure 0'' []))), Sleep 1000,
       Called Operation (Threw (Thrown (LibError ''Error'' ''failure 1'' []))), Sleep 1000,
       Called Operation Gave] = evs @ [Called Operation Gave] \<and>
      Called Operation Gave \<notin> set evs \<and> sleeps_of evs = calls_of Operation evs \<and>
      int (calls_of Operation evs) < 3 \<and> flaky 2 w = (Inr 2, 3)) \<and>
   flaky 0 0 = (Inr 0, 1) \<and>
   retryOperation (sleep (\<lambda>d w. w)) (call Operation gave (flaky 0)) 3 1000
       \<lparr>world = 0, trace = []\<rparr> =
     (Inr (Some 0), \<lparr>world = 1, trace = [Called Operation Gave]\<rparr>) \<and>
   fails_with (\<lambda>d w. w) 1000 (flaky 2)
     [Thrown (LibError ''Error'' ''failure 0'' []), Thrown (LibError ''Error'' ''failure 1'' [])]
     0 = Some 2 \<and>
   retryOperation (sleep (\<lambda>d w. w)) (call Operation gave (flaky 2)) 5 1000
       \<lparr>world = 0, trace = []\<rparr> =
     (Inr (Some 2),
      \<lparr>world = 3, trace =
         [Called Operation (Threw (Thrown (LibError ''Error'' ''failure 0'' []))), Sleep 1000,
          Called Operation (Threw (Thrown (LibError ''Error'' ''failure 1'' []))), Sleep 1000,
          Called Operation Gave]\<rparr>) \<and>
   fst (retryOperation (sleep (\<lambda>d w. w)) (call Operation gave (flaky 0)) 3 1000
          \<lparr>world = 0, trace = []\<rparr>) \<noteq> Inr None"
proof -
  have f: "flaky 2 0 = (Inl (Thrown (LibError ''Error'' ''failure 0'' [])), 1)"
    "flaky 2 1 = (Inl (Thrown (LibError ''Error'' ''failure 1'' [])), 2)"
    "flaky 2 2 = (Inr 2, 3)"
    by (simp_all add: flaky_def show_nat_digit)
  have g: "flaky 0 0 = (Inr 0, 1)"
    by (simp add: flaky_def)
  have fw: "fails_with (\<lambda>d w. w) 1000 (flaky 2)
     [Thrown (LibError ''Error'' ''failure 0'' []), Thrown (LibError ''Error'' ''failure 1'' [])]
     0 = Some 2"
    by (simp add: flaky_def show_nat_digit)
  note t = retry_returns_on_success [where operation = "flaky 2"
      and st = "\<lparr>world = 0, trace = []\<rparr>" and tick = "\<lambda>d w. w" and d = 1000
      and ?w1.0 = 1 and ?w2.0 = 2 and ?w3.0 = 3 and v = 2
      and ?e1.0 = "Thrown (LibError ''Error'' ''failure 0'' [])"
      and ?e2.0 = "Thrown (LibError ''Error'' ''failure 1'' [])"]
  note u = retry_returns_on_success [where operation = "flaky 0"
      and st = "\<lparr>world = 0, trace = []\<rparr>" and tick = "\<lambda>d w. w" and d = 1000]
  from t f have run: "retryOperation (sleep (\<lambda>d w. w)) (call Operation gave (flaky 2)) 3 1000
       \<lparr>world = 0, trace = []\<rparr> =
     (Inr (Some 2),
      \<lparr>world = 3, trace =
         [Called Operation (Threw (Thrown (LibError ''Error'' ''failure 0'' []))), Sleep 1000,
          Called Operation (Threw (Thrown (LibError ''Error'' ''failure 1'' []))), Sleep 1000,
          Called Operation Gave]\<rparr>)"
    by simp
  from t [THEN conjunct2, THEN conjunct1, rule_format, OF run]
  have shape: "\<exists>evs w.
      [Called Operation (Threw (Thrown (LibError ''Error'' ''failure 0'' []))), Sleep 1000,
       Called Operation (Threw (Thrown (LibError ''Error'' ''failure 1'' []))), Sleep 1000,
       Called Operation Gave] = evs @ [Called Operation Gave] \<and>
      Called Operation Gave \<notin> set evs \<and> sleeps_of evs = calls_of Operation evs \<and>
      int (calls_of Operation evs) < 3 \<and> flaky 2 w = (Inr 2, 3)"
    by simp
  from u [THEN conjunct2, THEN conjunct2, THEN conjunct2, THEN conjunct1, rule_format,
      of "[]" 0 0 1 3] g
  have first: "retryOperation (sleep (\<lambda>d w. w)) (call Operation gave (flaky 0)) 3 1000
       \<lparr>world = 0, trace = []\<rparr> =
     (Inr (Some 0), \<lparr>world = 1, trace = [Called Operation Gave]\<rparr>)"
    by simp
  from t [THEN conjunct2, THEN conjunct2, THEN conjunct2, THEN conjunct1, rule_format,
      of "[Thrown (LibError ''Error'' ''failure 0'' []), Thrown (LibError ''Error'' ''failure 1'' [])]"
         2 2 3 5] fw f
  have early: "retryOperation (sleep (\<lambda>d w. w)) (call Operation gave (flaky 2)) 5 1000
       \<lparr>world = 0, trace = []\<rparr> =
     (Inr (Some 2),
      \<lparr>world = 3, trace =
         [Called Operation (Threw (Thrown (LibError ''Error'' ''failure 0'' []))), Sleep 1000,
          Called Operation (Threw (Thrown (LibError ''Error'' ''failure 1'' []))), Sleep 1000,
          Called Operation Gave]\<rparr>)"
    by simp
  from u [THEN conjunct2, THEN conjunct2, THEN conjunct2, THEN conjunct2, rule_format, of 3]
  have defined: "fst (retryOperation (sleep (\<lambda>d w. w)) (call Operation gave (flaky 0)) 3 1000
          \<lparr>world = 0, trace = []\<rparr>) \<noteq> Inr None"
    by simp
  from f run shape g first fw early defined show ?thesis by blast
qed

text \<open>
  C10. With \<open>maxRetries\<close> below 1 the loop body never runs: \<open>retryOperation\<close> returns
  \<^verbatim>\<open>undefined\<close> (the result \<open>Inr None\<close>) and leaves the state as it was, so the operation
  was not invoked and nothing was recorded.
\<close>

theorem retry_without_attempts:
  "maxRetries < 1 \<Longrightarrow> retryOperation wait operation maxRetries delay s = (Inr None, s)"
  unfolding retryOperation_def by (rule retry_step_done)

theorem retry_without_attempts_witness:
  "(0::int) < 1 \<and>
   retryOperation (sleep (\<lambda>d w. w)) (call Operation gave (flaky 0)) 0 1000
       \<lparr>world = 0, trace = []\<rparr> =
     (Inr None, \<lparr>world = 0, trace = []\<rparr>)"
  using retry_without_attempts [of 0 "sleep (\<lambda>d w. w)" "call Operation gave (flaky 0)" 1000
      "\<lparr>world = 0, trace = []\<rparr>"]
  by simp


section \<open>Properties of the encoder\<close>

lemma generateCSV_spec:
  assumes "parse co = (\<lambda>ds fs. Inr (json2csv_parse ds fs))"
  shows "generateCSV co (d # ds) st =
           (Inr (unlines (csv_header (Object_keys d) # map (csv_row (Object_keys d)) (d # ds))), st)"
  by (simp add: generateCSV_def assms json2csv_parse_def csv_lines_def ret_def Let_def)

lemma count_unlines:
  "count_list (unlines ls) newline = length ls + sum_list (map (\<lambda>l. count_list l newline) ls)"
  by (induction ls) (simp_all add: unlines_def)

lemma digit_not_newline: "k < 10 \<Longrightarrow> newline \<noteq> ''0123456789'' ! k"
proof -
  assume "k < 10"
  then have mem: "''0123456789'' ! k \<in> set ''0123456789''"
    by (intro nth_mem) simp
  have "\<forall>c\<in>set ''0123456789''. c \<noteq> newline"
    by (simp add: newline_def)
  from bspec [OF this mem] show ?thesis by (rule not_sym)
qed

lemma show_nat_plain: "newline \<notin> set (show_nat n)"
proof (induction n rule: show_nat.induct)
  case (1 n)
  show ?case
  proof (cases "n < 10")
    case True
    then show ?thesis
      by (subst show_nat.simps) (simp add: digit_not_newline)
  next
    case False
    have "n mod 10 < 10" by simp
    with False 1 show ?thesis
      by (subst show_nat.simps) (simp add: digit_not_newline)
  qed
qed

lemma show_int_plain: "newline \<notin> set (show_int i)"
proof (cases "i < 0")
  case True
  have "newline \<noteq> CHR ''-''" by (simp add: newline_def)
  with True show ?thesis by (simp add: show_int_def show_nat_plain)
next
  case False
  then show ?thesis by (simp add: show_int_def show_nat_plain)
qed

lemma quote_plain: "newline \<notin> set s \<Longrightarrow> newline \<notin> set (quote s)"
  by (auto simp: quote_def newline_def dquote_def split: if_splits)

lemma render_value_plain: "plain_value v \<Longrightarrow> newline \<notin> set (render_value v)"
  by (cases v) (simp_all add: show_int_plain quote_plain)

lemma map_of_plain: "plain d \<Longrightarrow> map_of d f = Some v \<Longrightarrow> plain_value v"
  by (induction d) (auto simp: plain_def split: if_splits)

lemma cell_plain: "plain d \<Longrightarrow> newline \<notin> set (cell d f)"
proof (cases "map_of d f")
  case None
  then show ?thesis by (simp add: cell_def)
next
  case (Some v)
  assume "plain d"
  from map_of_plain [OF this Some] have "newline \<notin> set (render_value v)"
    by (rule render_value_plain)
  with Some show ?thesis by (simp add: cell_def)
qed

lemma join_plain: "(\<And>x. x \<in> set xs \<Longrightarrow> newline \<notin> set x) \<Longrightarrow> newline \<notin> set (join xs)"
  by (induction xs rule: join.induct) (auto simp: newline_def)

lemma csv_row_plain: "plain d \<Longrightarrow> newline \<notin> set (csv_row fs d)"
  unfolding csv_row_def by (rule join_plain) (auto simp: cell_plain)

lemma csv_header_plain: "plain d \<Longrightarrow> newline \<notin> set (csv_header (Object_keys d))"
  unfolding csv_header_def Object_keys_def
  by (rule join_plain) (auto simp: plain_def list_all_iff intro!: quote_plain)

lemma count_zero: "x \<notin> set xs \<Longrightarrow> count_list xs x = 0"
  by (simp add: count_list_0_iff)

lemma sum_list_zero: "(\<And>x. x \<in> set xs \<Longrightarrow> f x = (0::nat)) \<Longrightarrow> sum_list (map f xs) = 0"
  by (induction xs) simp_all

lemma cell_absent: "f \<notin> set (Object_keys r) \<Longrightarrow> cell r f = []"
proof -
  assume "f \<notin> set (Object_keys r)"
  then have "map_of r f = None"
    by (simp add: Object_keys_def map_of_eq_None_iff)
  then show ?thesis by (simp add: cell_def)
qed

lemma map_of_restrict:
  "f \<in> S \<Longrightarrow> map_of (filter (\<lambda>(k, v). k \<in> S) r) f = map_of r f"
  by (induction r) auto

lemma cell_restrict: "f \<in> S \<Longrightarrow> cell (filter (\<lambda>(k, v). k \<in> S) r) f = cell r f"
  by (simp add: cell_def map_of_restrict)

lemma csv_row_restrict:
  "csv_row fs (filter (\<lambda>(k, v). k \<in> set fs) r) = csv_row fs r"
proof -
  have "map (cell (filter (\<lambda>(k, v). k \<in> set fs) r)) fs = map (cell r) fs"
    by (simp add: cell_restrict)
  then show ?thesis by (simp only: csv_row_def)
qed

lemma double_parse: "parse (double k documents exists close_ok) = (\<lambda>ds fs. Inr (json2csv_parse ds fs))"
  by (simp add: double_def)

text \<open>
  C4. With the encoder modelled from the spec, \<open>generateCSV\<close> on a batch of N records
  gives the header line followed by one row per record, N + 1 lines, each ended by a
  newline; when no key and no string value holds a newline, the text has exactly N + 1
  newline characters. On the batch \<^verbatim>\<open>[{a:1,b:2},{a:3,b:4}]\<close> the text is
  \<^verbatim>\<open>"a","b"\n1,2\n3,4\n\<close>.
\<close>

theorem encode_lines:
  assumes "parse co = (\<lambda>ds fs. Inr (json2csv_parse ds fs))"
  shows \<open>generateCSV co (d # ds) st =
           (Inr (unlines (csv_header (Object_keys d) # map (csv_row (Object_keys d)) (d # ds))), st) \<and>
         length (csv_header (Object_keys d) # map (csv_row (Object_keys d)) (d # ds)) =
           length (d # ds) + 1 \<and>
         (list_all plain (d # ds) \<longrightarrow>
            count_list (unlines (csv_header (Object_keys d) # map (csv_row (Object_keys d)) (d # ds)))
              newline = length (d # ds) + 1) \<and>
         generateCSV co [[(''a'', JNum 1), (''b'', JNum 2)], [(''a'', JNum 3), (''b'', JNum 4)]] st =
           (Inr (''"a","b"'' @ [newline] @ ''1,2'' @ [newline] @ ''3,4'' @ [newline]), st)\<close>
proof (intro conjI impI)
  show "generateCSV co (d # ds) st =
           (Inr (unlines (csv_header (Object_keys d) # map (csv_row (Object_keys d)) (d # ds))), st)"
    using assms by (rule generateCSV_spec)
  show "length (csv_header (Object_keys d) # map (csv_row (Object_keys d)) (d # ds)) =
          length (d # ds) + 1"
    by simp
  show \<open>generateCSV co [[(''a'', JNum 1), (''b'', JNum 2)], [(''a'', JNum 3), (''b'', JNum 4)]] st =
           (Inr (''"a","b"'' @ [newline] @ ''1,2'' @ [newline] @ ''3,4'' @ [newline]), st)\<close>
    unfolding generateCSV_spec [OF assms]
    by (simp add: unlines_def csv_header_def csv_row_def cell_def
        quote_def Object_keys_def show_int_def show_nat_digit dquote_def)
next
  assume p: "list_all plain (d # ds)"
  have "count_list l newline = 0"
    if "l \<in> set (csv_header (Object_keys d) # map (csv_row (Object_keys d)) (d # ds))" for l
  proof -
    from that p have "newline \<notin> set l"
      by (auto simp: list_all_iff csv_header_plain csv_row_plain)
    then show ?thesis by (rule count_zero)
  qed
  then have "sum_list (map (\<lambda>l. count_list l newline)
       (csv_header (Object_keys d) # map (csv_row (Object_keys d)) (d # ds))) = 0"
    by (rule sum_list_zero)
  then show "count_list (unlines (csv_header (Object_keys d) # map (csv_row (Object_keys d)) (d # ds)))
              newline = length (d # ds) + 1"
    unfolding count_unlines by simp
qed

theorem encode_lines_witness:
  \<open>parse (double 0 [] True True) = (\<lambda>ds fs. Inr (json2csv_parse ds fs)) \<and>
   list_all plain two_records \<and>
   generateCSV (double 0 [] True True) two_records \<lparr>world = 0, trace = []\<rparr> =
     (Inr (''"a","b"'' @ [newline] @ ''1,2'' @ [newline] @ ''3,4'' @ [newline]),
      \<lparr>world = 0, trace = []\<rparr>) \<and>
   count_list (''"a","b"'' @ [newline] @ ''1,2'' @ [newline] @ ''3,4'' @ [newline]) newline = 3\<close>
proof -
  have p: "list_all plain two_records"
    by (simp add: two_records_def plain_def newline_def)
  note t = encode_lines [OF double_parse [of 0 "[]" True True],
      where d = "[(''a'', JNum 1), (''b'', JNum 2)]"
      and ds = "[[(''a'', JNum 3), (''b'', JNum 4)]]" and st = "\<lparr>world = 0, trace = []\<rparr>"]
  note t1 = t [THEN conjunct1]
  note t3 = t [THEN conjunct2, THEN conjunct2, THEN conjunct1]
  note t4 = t [THEN conjunct2, THEN conjunct2, THEN conjunct2]
  from t4 have run: \<open>generateCSV (double 0 [] True True) two_records \<lparr>world = 0, trace = []\<rparr> =
     (Inr (''"a","b"'' @ [newline] @ ''1,2'' @ [newline] @ ''3,4'' @ [newline]),
      \<lparr>world = 0, trace = []\<rparr>)\<close>
    by (simp add: two_records_def)
  from t3 p have n: "count_list (unlines (csv_header (Object_keys [(''a'', JNum 1), (''b'', JNum 2)]) #
       map (csv_row (Object_keys [(''a'', JNum 1), (''b'', JNum 2)]))
         ([(''a'', JNum 1), (''b'', JNum 2)] # [[(''a'', JNum 3), (''b'', JNum 4)]]))) newline = 3"
    by (simp add: two_records_def)
  from t1 t4 have \<open>unlines (csv_header (Object_keys [(''a'', JNum 1), (''b'', JNum 2)]) #
       map (csv_row (Object_keys [(''a'', JNum 1), (''b'', JNum 2)]))
         ([(''a'', JNum 1), (''b'', JNum 2)] # [[(''a'', JNum 3), (''b'', JNum 4)]])) =
     ''"a","b"'' @ [newline] @ ''1,2'' @ [newline] @ ''3,4'' @ [newline]\<close>
    by simp
  with n have \<open>count_list (''"a","b"'' @ [newline] @ ''1,2'' @ [newline] @ ''3,4'' @ [newline])
      newline = 3\<close>
    by simp
  with double_parse p run show ?thesis by blast
qed

text \<open>
  C5. With the encoder modelled from the spec, the header of the text is made of the keys
  of the first record, in that record's order, and every row has one cell per such key; a
  record that lacks a key has an empty cell there; and removing from the later records the
  fields whose key the first record lacks leaves the text unchanged, so such a field
  leaves no mark in it.
\<close>

theorem columns_of_first_record:
  assumes "parse co = (\<lambda>ds fs. Inr (json2csv_parse ds fs))"
  shows "generateCSV co (d # ds) st =
           (Inr (unlines (join (map quote (map fst d)) #
                          map (\<lambda>r. join (map (cell r) (map fst d))) (d # ds))), st) \<and>
         (\<forall>r f. f \<notin> set (Object_keys r) \<longrightarrow> cell r f = []) \<and>
         generateCSV co (d # map (filter (\<lambda>(k, v). k \<in> set (Object_keys d))) ds) st =
           generateCSV co (d # ds) st"
proof (intro conjI allI impI)
  show "generateCSV co (d # ds) st =
           (Inr (unlines (join (map quote (map fst d)) #
                          map (\<lambda>r. join (map (cell r) (map fst d))) (d # ds))), st)"
    unfolding generateCSV_spec [OF assms]
    by (simp add: csv_header_def csv_row_def [abs_def] Object_keys_def)
  show "cell r f = []" if "f \<notin> set (Object_keys r)" for r f
    using that by (rule cell_absent)
  show "generateCSV co (d # map (filter (\<lambda>(k, v). k \<in> set (Object_keys d))) ds) st =
           generateCSV co (d # ds) st"
    unfolding generateCSV_spec [OF assms]
    by (simp add: csv_row_restrict comp_def)
qed

theorem columns_of_first_record_witness:
  \<open>parse (double 0 [] True True) = (\<lambda>ds fs. Inr (json2csv_parse ds fs)) \<and>
   ''b'' \<notin> set (Object_keys [(''a'', JNum 7), (''c'', JStr ''x'')]) \<and>
   cell [(''a'', JNum 7), (''c'', JStr ''x'')] ''b'' = [] \<and>
   generateCSV (double 0 [] True True)
       [[(''a'', JNum 1), (''b'', JNum 2)], [(''a'', JNum 7), (''c'', JStr ''x'')]]
       \<lparr>world = 0, trace = []\<rparr> =
     (Inr (''"a","b"'' @ [newline] @ ''1,2'' @ [newline] @ ''7,'' @ [newline]),
      \<lparr>world = 0, trace = []\<rparr>) \<and>
   generateCSV (double 0 [] True True)
       [[(''a'', JNum 1), (''b'', JNum 2)], [(''a'', JNum 7)]] \<lparr>world = 0, trace = []\<rparr> =
     generateCSV (double 0 [] True True)
       [[(''a'', JNum 1), (''b'', JNum 2)], [(''a'', JNum 7), (''c'', JStr ''x'')]]
       \<lparr>world = 0, trace = []\<rparr>\<close>
proof -
  have k: "''b'' \<notin> set (Object_keys [(''a'', JNum 7), (''c'', JStr ''x'')])"
    by (simp add: Object_keys_def)
  note t = columns_of_first_record [OF double_parse [of 0 "[]" True True],
      where d = "[(''a'', JNum 1), (''b'', JNum 2)]"
      and ds = "[[(''a'', JNum 7), (''c'', JStr ''x'')]]" and st = "\<lparr>world = 0, trace = []\<rparr>"]
  note t1 = t [THEN conjunct1]
  note t2 = t [THEN conjunct2, THEN conjunct1]
  note t3 = t [THEN conjunct2, THEN conjunct2]
  from t2 k have c: "cell [(''a'', JNum 7), (''c'', JStr ''x'')] ''b'' = []"
    by blast
  from t1 have run: \<open>generateCSV (double 0 [] True True)
       [[(''a'', JNum 1), (''b'', JNum 2)], [(''a'', JNum 7), (''c'', JStr ''x'')]]
       \<lparr>world = 0, trace = []\<rparr> =
     (Inr (''"a","b"'' @ [newline] @ ''1,2'' @ [newline] @ ''7,'' @ [newline]),
      \<lparr>world = 0, trace = []\<rparr>)\<close>
    by (simp add: unlines_def cell_def quote_def show_int_def show_nat_digit dquote_def)
  from t3 have same: "generateCSV (double 0 [] True True)
       [[(''a'', JNum 1), (''b'', JNum 2)], [(''a'', JNum 7)]] \<lparr>world = 0, trace = []\<rparr> =
     generateCSV (double 0 [] True True)
       [[(''a'', JNum 1), (''b'', JNum 2)], [(''a'', JNum 7), (''c'', JStr ''x'')]]
       \<lparr>world = 0, trace = []\<rparr>"
    by (simp add: Object_keys_def)
  from double_parse k c run same show ?thesis by blast
qed


section \<open>Properties of the exported function\<close>

text \<open>
  The \<^verbatim>\<open>catch\<close> block logs three lines and returns; the \<^verbatim>\<open>finally\<close> block returns too,
  after at most one call of \<^verbatim>\<open>client.close\<close> and one log line.
\<close>

lemma catch_block_run:
  "catch_block error st =
     (Inr (), st\<lparr>trace := trace st @
        [LogError (''Error occurred: '' @ err_message error),
         LogError (''Error stack: '' @ err_stack error),
         LogError (if instanceof_CustomError error then ''Custom error type: '' @ err_type error
           else if err_name error = ''MongoServerSelectionError'' then
             ''Failed to select a MongoDB server. Check your network settings and connection string.''
           else if err_name error = ''MongoNetworkError'' then
             ''MongoDB network error. Ensure your MongoDB Atlas IP whitelist ''
               @ ''includes your function app's IP address.''
           else ''An unexpected error occurred.'')]\<rparr>)"
  by (simp add: catch_block_def seq_def log_error_def)

lemma finally_block_none:
  "client fr = None \<Longrightarrow> finally_block co fr = (Inr (), fr)"
  by (simp add: finally_block_def ret_def)

lemma finally_block_some:
  "client fr = Some c \<Longrightarrow>
   finally_block co fr =
     (case client_close co c (world fr) of
        (Inl e, w') \<Rightarrow>
          (Inr (), fr\<lparr>world := w', trace := trace fr @
             [Called ClientClose (Threw (Thrown e)),
              LogError (''Error occurred while closing MongoDB connection: '' @ lib_message e)]\<rparr>)
      | (Inr u, w') \<Rightarrow>
          (Inr (), fr\<lparr>world := w', trace := trace fr @
             [Called ClientClose Gave, Log ''MongoDB connection closed'']\<rparr>))"
  by (simp add: finally_block_def try_catch_def seq_def call_def lib_def log_def log_error_def gave_def
      split: prod.splits sum.splits)

lemma finally_block_returns: "fst (finally_block co fr) = Inr ()"
  by (cases "client fr") (simp_all add: finally_block_none finally_block_some split: prod.splits sum.splits)

lemma finally_block_extends: "\<exists>evs. trace (snd (finally_block co fr)) = trace fr @ evs"
proof (cases "client fr")
  case None
  then show ?thesis by (simp add: finally_block_none)
next
  case (Some c)
  show ?thesis
    unfolding finally_block_some [OF Some]
    by (auto split: prod.splits sum.splits)
qed

lemma try_catch_finally_returns:
  fixes handler :: "'e \<Rightarrow> 's \<Rightarrow> ('e + unit) \<times> 's"
  assumes "\<And>e s. fst (handler e s) = Inr ()" and "\<And>s. fst (finalizer s) = Inr ()"
  shows "fst (try_catch_finally body handler finalizer s) = Inr ()"
proof -
  obtain r s1 where b: "try_catch body handler s = (r, s1)" by (cases "try_catch body handler s")
  have r: "r = Inr ()"
  proof (cases "body s")
    case (Pair x s0)
    show ?thesis
    proof (cases x)
      case (Inl e)
      with Pair b assms(1) [of e s0] show ?thesis by (simp add: try_catch_def)
    next
      case (Inr v)
      with Pair b show ?thesis by (simp add: try_catch_def)
    qed
  qed
  obtain q s2 where f: "finalizer s1 = (q, s2)" by (cases "finalizer s1")
  with assms(2) [of s1] have "q = Inr ()" by simp
  with b r f show ?thesis by (simp add: try_catch_finally_def)
qed

text \<open>
  The two branches of the exported function: the early return, and the
  \<^verbatim>\<open>try\<close> statement run on a fresh frame.
\<close>

lemma module_exports_missing:
  "falsy (MongoDBAtlasConnectionString env) \<or> falsy (DatabaseName env) \<or>
   falsy (CollectionName env) \<or> falsy (AzureBlobStorageConnectionString env) \<or>
   falsy (BlobContainerName env) \<Longrightarrow>
   module_exports co env st =
     (Inr (), st\<lparr>trace := trace st @
        [Log (''JavaScript timer trigger function started: '' @ clock co (world st)),
         LogError ''Missing required environment variables'']\<rparr>)"
  by (simp add: module_exports_def seq_def log_def log_error_def ret_def Let_def)

lemma module_exports_valid:
  "\<not> (falsy (MongoDBAtlasConnectionString env) \<or> falsy (DatabaseName env) \<or>
   falsy (CollectionName env) \<or> falsy (AzureBlobStorageConnectionString env) \<or>
   falsy (BlobContainerName env)) \<Longrightarrow>
   module_exports co env st =
     (case try_catch_finally (try_block co env (clock co (world st))) catch_block (finally_block co)
             \<lparr>world = world st,
              trace = trace st @
                [Log (''JavaScript timer trigger function started: '' @ clock co (world st))],
              client = None\<rparr> of
        (r, fr) \<Rightarrow> (r, \<lparr>world = world fr, trace = trace fr\<rparr>))"
  by (simp add: module_exports_def seq_def log_def Let_def)

lemma module_exports_fulfils: "fst (module_exports co env st) = Inr ()"
proof (cases "falsy (MongoDBAtlasConnectionString env) \<or> falsy (DatabaseName env) \<or>
                falsy (CollectionName env) \<or> falsy (AzureBlobStorageConnectionString env) \<or>
                falsy (BlobContainerName env)")
  case True
  then show ?thesis
    by (simp only: module_exports_missing fst_conv)
next
  case False
  have "fst (try_catch_finally (try_block co env ts) catch_block (finally_block co) fr) = Inr ()"
    for ts and fr :: "'a frame"
    by (rule try_catch_finally_returns) (simp_all add: catch_block_run finally_block_returns)
  then show ?thesis
    by (simp only: module_exports_valid [OF False] case_prod_beta fst_conv)
qed

lemma missing_trace:
  assumes "falsy (MongoDBAtlasConnectionString env) \<or> falsy (DatabaseName env) \<or>
     falsy (CollectionName env) \<or> falsy (AzureBlobStorageConnectionString env) \<or>
     falsy (BlobContainerName env)"
  shows "trace (snd (module_exports co env st)) = trace st @
        [Log (''JavaScript timer trigger function started: '' @ clock co (world st)),
         LogError ''Missing required environment variables'']"
  unfolding module_exports_missing [OF assms] by simp

text \<open>
  What the connection attempts leave in the trace: calls of the constructor and of
  \<^verbatim>\<open>connect\<close>, and delays; a successful \<^verbatim>\<open>connect\<close> is there exactly when a client is
  returned.
\<close>

lemma seq_cases:
  assumes "seq m f s = (res, s')"
  obtains (threw) e where "m s = (Inl e, s')" and "res = Inl e"
        | (went) v s1 where "m s = (Inr v, s1)" and "f v s1 = (res, s')"
  using assms by (auto simp: seq_def split: prod.splits sum.splits)

lemma connect_new_fails:
  "mongo_client_new co cs opts (world st) = (Inl e, w1) \<Longrightarrow>
   connectToMongoDB co cs opts st =
     (Inl (Thrown e), st\<lparr>world := w1, trace := trace st @ [Called MongoClientNew (Threw (Thrown e))]\<rparr>)"
  by (simp add: connectToMongoDB_def seq_def call_def lib_def)

lemma connect_fails:
  "mongo_client_new co cs opts (world st) = (Inr c, w1) \<Longrightarrow> client_connect co c w1 = (Inl e, w2) \<Longrightarrow>
   connectToMongoDB co cs opts st =
     (Inl (Thrown e), st\<lparr>world := w2, trace := trace st @
        [Called MongoClientNew Gave, Called ClientConnect (Threw (Thrown e))]\<rparr>)"
  by (simp add: connectToMongoDB_def seq_def call_def lib_def gave_def)

lemma connect_succeeds:
  "mongo_client_new co cs opts (world st) = (Inr c, w1) \<Longrightarrow> client_connect co c w1 = (Inr u, w2) \<Longrightarrow>
   connectToMongoDB co cs opts st =
     (Inr c, st\<lparr>world := w2, trace := trace st @
        [Called MongoClientNew Gave, Called ClientConnect Gave]\<rparr>)"
  by (simp add: connectToMongoDB_def seq_def call_def lib_def gave_def ret_def)

lemma connect_attempt:
  assumes "connectToMongoDB co cs opts st = (r, st')"
  shows "\<exists>evs. st' = st\<lparr>world := world st', trace := trace st @ evs\<rparr> \<and>
           list_all connect_event evs \<and>
           (Called ClientConnect Gave \<in> set evs \<longleftrightarrow> (\<exists>c. r = Inr c))"
proof -
  obtain x w1 where n: "mongo_client_new co cs opts (world st) = (x, w1)"
    by (cases "mongo_client_new co cs opts (world st)")
  show ?thesis
  proof (cases x)
    case (Inl e)
    from connect_new_fails [OF n [unfolded Inl]] assms
    have "r = Inl (Thrown e)"
      "st' = st\<lparr>world := w1, trace := trace st @ [Called MongoClientNew (Threw (Thrown e))]\<rparr>"
      by simp_all
    then show ?thesis
      by (intro exI [of _ "[Called MongoClientNew (Threw (Thrown e))]"]) simp
  next
    case (Inr c)
    obtain y w2 where k: "client_connect co c w1 = (y, w2)" by (cases "client_connect co c w1")
    show ?thesis
    proof (cases y)
      case (Inl e)
      from connect_fails [OF n [unfolded Inr] k [unfolded Inl]] assms
      have "r = Inl (Thrown e)"
        "st' = st\<lparr>world := w2, trace := trace st @
           [Called MongoClientNew Gave, Called ClientConnect (Threw (Thrown e))]\<rparr>"
        by simp_all
      then show ?thesis
        by (intro exI [of _ "[Called MongoClientNew Gave, Called ClientConnect (Threw (Thrown e))]"]) simp
    next
      case (Inr u)
      from connect_succeeds [OF n [unfolded \<open>x = Inr c\<close>] k [unfolded Inr]] assms
      have "r = Inr c"
        "st' = st\<lparr>world := w2, trace := trace st @
           [Called MongoClientNew Gave, Called ClientConnect Gave]\<rparr>"
        by simp_all
      then show ?thesis
        by (intro exI [of _ "[Called MongoClientNew Gave, Called ClientConnect Gave]"]) simp
    qed
  qed
qed

lemma retry_connect:
  "retry_loop (sleep (timer co)) (connectToMongoDB co cs opts) m d a st = (r, st') \<Longrightarrow>
   \<exists>evs. st' = st\<lparr>world := world st', trace := trace st @ evs\<rparr> \<and>
         list_all connect_event evs \<and>
         (Called ClientConnect Gave \<in> set evs \<longleftrightarrow> (\<exists>c. r = Inr (Some c))) \<and>
         (r = Inr None \<longrightarrow> m < a)"
proof (induction "sleep (timer co) :: nat \<Rightarrow> ('a, 'b) state_scheme \<Rightarrow> ('a, 'b) state_scheme"
    "connectToMongoDB co cs opts :: ('a, 'b) state_scheme \<Rightarrow> (js_error + handle) \<times> ('a, 'b) state_scheme"
    m d a st rule: retry_loop.induct)
  case (1 m d a s)
  let ?op = "connectToMongoDB co cs opts :: ('a, 'b) state_scheme \<Rightarrow> (js_error + handle) \<times> ('a, 'b) state_scheme"
  show ?case
  proof (cases "a \<le> m")
    case False
    with "1.prems" have "r = Inr None" "st' = s" "m < a"
      by (auto simp: retry_step_done)
    then show ?thesis
      by (intro exI [of _ "[]"]) simp
  next
    case le: True
    obtain x s1 where op: "?op s = (x, s1)" by (cases "?op s")
    from connect_attempt [OF op] obtain evs1 where
      e1: "s1 = s\<lparr>world := world s1, trace := trace s @ evs1\<rparr>" "list_all connect_event evs1"
          "Called ClientConnect Gave \<in> set evs1 \<longleftrightarrow> (\<exists>c. x = Inr c)"
      by blast
    show ?thesis
    proof (cases x)
      case (Inr c)
      from retry_step_ok [where operation = ?op and s = s, OF op [unfolded Inr] le] "1.prems"
      have "r = Inr (Some c)" "st' = s1" by simp_all
      with e1 Inr show ?thesis by blast
    next
      case (Inl e)
      show ?thesis
      proof (cases "a = m")
        case True
        from retry_step_last [where operation = ?op and s = s, OF op [unfolded Inl]] "1.prems" True
        have "r = Inl e" "st' = s1" by simp_all
        with e1 Inl show ?thesis by blast
      next
        case False
        with le have lt: "a < m" by simp
        from retry_step_fail [where operation = ?op and s = s, OF op [unfolded Inl] lt] "1.prems"
        have rec: "retry_loop (sleep (timer co)) ?op m d (a + 1) (sleep (timer co) d s1) = (r, st')"
          by simp
        from "1.hyps" [OF le op [symmetric] Inl False rec]
        obtain evs where ih:
          "st' = (sleep (timer co) d s1)\<lparr>world := world st', trace := trace (sleep (timer co) d s1) @ evs\<rparr>"
          "list_all connect_event evs"
          "Called ClientConnect Gave \<in> set evs \<longleftrightarrow> (\<exists>c. r = Inr (Some c))"
          "r = Inr None \<longrightarrow> m < a + 1"
          by blast
        from ih(4) lt have nn: "r \<noteq> Inr None" by auto
        have "st' = s\<lparr>world := world st', trace := trace s @ (evs1 @ [Sleep d] @ evs)\<rparr>"
          by (subst ih(1), subst (1 2) e1(1)) (simp add: sleep_def)
        moreover have "list_all connect_event (evs1 @ [Sleep d] @ evs)"
          using ih(2) e1(2) by simp
        moreover have "Called ClientConnect Gave \<in> set (evs1 @ [Sleep d] @ evs) \<longleftrightarrow> (\<exists>c. r = Inr (Some c))"
          using ih(3) e1(3) Inl by simp
        ultimately show ?thesis using nn by blast
      qed
    qed
  qed
qed

text \<open>
  The statements after the connection, followed along every path: the client stays
  assigned, the trace grows by export events only, and a fetch that gave no record or a
  probe that answered false ends the block with the matching error before any later call.
\<close>

lemma after_connect_facts:
  "case after_connect co env ts (Some c) fr1 of (res, fr') \<Rightarrow>
    (\<exists>evs2. trace fr' = trace fr1 @ evs2 \<and> client fr' = Some c \<and> list_all export_event evs2 \<and>
       calls_of FindToArray evs2 \<le> 1 \<and>
       (Called FindToArray (GaveCount 0) \<in> set evs2 \<longrightarrow>
          (\<exists>stk. res = Inl (CustomError ''No documents found in MongoDB'' ''NoDataError'' stk)) \<and>
          calls_of FromConnectionString evs2 = 0 \<and> calls_of GetContainerClient evs2 = 0 \<and>
          calls_of ContainerExists evs2 = 0 \<and> calls_of GetBlockBlobClient evs2 = 0 \<and>
          calls_of UploadStream evs2 = 0) \<and>
       (Called ContainerExists (GaveBool False) \<in> set evs2 \<longrightarrow>
          (\<exists>stk. res = Inl (CustomError
             (''Container '' @ [dquote] @ text_of (BlobContainerName env) @ [dquote] @ '' does not exist'')
             ''ContainerNotFoundError'' stk)) \<and>
          calls_of GetBlockBlobClient evs2 = 0 \<and> calls_of UploadStream evs2 = 0) \<and>
       (calls_of UploadStream evs2 \<noteq> 0 \<longrightarrow> Called ContainerExists (GaveBool True) \<in> set evs2))"
  by (auto simp: after_connect_def seq_def ret_def throw_def log_def gave_def calls_of_def
          fetchDataFromMongoDB_def generateCSV_def uploadToBlob_def call_def lib_def Let_def
          split: prod.split sum.split list.split)

lemma try_block_anatomy:
  assumes tb: "try_block co env ts fr = (res, fr')"
  obtains (refused) evs1 e where
      "trace fr' = trace fr @ evs1" "client fr' = client fr" "res = Inl e"
      "list_all connect_event evs1" "Called ClientConnect Gave \<notin> set evs1"
    | (connected) evs1 evs2 c where
      "trace fr' = trace fr @ evs1 @ evs2" "client fr' = Some c"
      "list_all connect_event evs1" "Called ClientConnect Gave \<in> set evs1"
      "list_all export_event evs2"
      "calls_of FindToArray evs2 \<le> 1"
      "Called FindToArray (GaveCount 0) \<in> set evs2 \<Longrightarrow>
          (\<exists>stk. res = Inl (CustomError ''No documents found in MongoDB'' ''NoDataError'' stk)) \<and>
          calls_of FromConnectionString evs2 = 0 \<and> calls_of GetContainerClient evs2 = 0 \<and>
          calls_of ContainerExists evs2 = 0 \<and> calls_of GetBlockBlobClient evs2 = 0 \<and>
          calls_of UploadStream evs2 = 0"
      "Called ContainerExists (GaveBool False) \<in> set evs2 \<Longrightarrow>
          (\<exists>stk. res = Inl (CustomError
             (''Container '' @ [dquote] @ text_of (BlobContainerName env) @ [dquote] @ '' does not exist'')
             ''ContainerNotFoundError'' stk)) \<and>
          calls_of GetBlockBlobClient evs2 = 0 \<and> calls_of UploadStream evs2 = 0"
      "calls_of UploadStream evs2 \<noteq> 0 \<Longrightarrow> Called ContainerExists (GaveBool True) \<in> set evs2"
proof -
  from tb [unfolded try_block_def] show ?thesis
  proof (cases rule: seq_cases)
    case (threw e)
    from retry_connect [OF threw(1) [unfolded retryOperation_def]]
    obtain evs where ev: "fr' = fr\<lparr>world := world fr', trace := trace fr @ evs\<rparr>"
       "list_all connect_event evs" "Called ClientConnect Gave \<notin> set evs"
      by auto
    have "trace fr' = trace fr @ evs" by (subst ev(1)) simp
    moreover have "client fr' = client fr" by (subst ev(1)) simp
    ultimately show ?thesis using threw(2) ev(2,3) by (rule refused)
  next
    case (went v fr1)
    from retry_connect [OF went(1) [unfolded retryOperation_def]]
    obtain evs c where e: "fr1 = fr\<lparr>world := world fr1, trace := trace fr @ evs\<rparr>" "v = Some c"
       "list_all connect_event evs" "Called ClientConnect Gave \<in> set evs"
      by (cases v) auto
    have t1: "trace fr1 = trace fr @ evs" by (subst e(1)) simp
    from after_connect_facts [where co = co and env = env and ts = ts and c = c and ?fr1.0 = fr1] went(2) [unfolded e(2)]
    obtain evs2 where f: "trace fr' = trace fr1 @ evs2" "client fr' = Some c"
      "list_all export_event evs2" "calls_of FindToArray evs2 \<le> 1"
      "Called FindToArray (GaveCount 0) \<in> set evs2 \<longrightarrow>
          (\<exists>stk. res = Inl (CustomError ''No documents found in MongoDB'' ''NoDataError'' stk)) \<and>
          calls_of FromConnectionString evs2 = 0 \<and> calls_of GetContainerClient evs2 = 0 \<and>
          calls_of ContainerExists evs2 = 0 \<and> calls_of GetBlockBlobClient evs2 = 0 \<and>
          calls_of UploadStream evs2 = 0"
      "Called ContainerExists (GaveBool False) \<in> set evs2 \<longrightarrow>
          (\<exists>stk. res = Inl (CustomError
             (''Container '' @ [dquote] @ text_of (BlobContainerName env) @ [dquote] @ '' does not exist'')
             ''ContainerNotFoundError'' stk)) \<and>
          calls_of GetBlockBlobClient evs2 = 0 \<and> calls_of UploadStream evs2 = 0"
      "calls_of UploadStream evs2 \<noteq> 0 \<longrightarrow> Called ContainerExists (GaveBool True) \<in> set evs2"
      by (simp only: prod.case) blast
    have "trace fr' = trace fr @ evs @ evs2" using f(1) t1 by simp
    then show ?thesis
      using f(2) e(3,4) f(3,4) f(5) [rule_format] f(6) [rule_format] f(7) [rule_format]
      by (rule connected)
  qed
qed

text \<open>
  The trace of a whole run with a complete configuration: the start line, the connection
  attempts and, when one of them succeeded, the export events, the lines of the
  \<^verbatim>\<open>catch\<close> block if an error was thrown, and the close call with its log line.
\<close>

lemma run_anatomy:
  assumes valid: "\<not> (falsy (MongoDBAtlasConnectionString env) \<or> falsy (DatabaseName env) \<or>
     falsy (CollectionName env) \<or> falsy (AzureBlobStorageConnectionString env) \<or>
     falsy (BlobContainerName env))"
  obtains (refused) evs1 e l where
      "trace (snd (module_exports co env st)) =
         trace st @ Log (''JavaScript timer trigger function started: '' @ clock co (world st)) #
           evs1 @ [LogError (''Error occurred: '' @ err_message e),
                   LogError (''Error stack: '' @ err_stack e), LogError l]"
      "list_all connect_event evs1" "Called ClientConnect Gave \<notin> set evs1"
    | (connected) evs1 evs2 evs3 evs4 res where
      "trace (snd (module_exports co env st)) =
         trace st @ Log (''JavaScript timer trigger function started: '' @ clock co (world st)) #
           evs1 @ evs2 @ evs3 @ evs4"
      "list_all connect_event evs1" "Called ClientConnect Gave \<in> set evs1"
      "list_all export_event evs2"
      "calls_of FindToArray evs2 \<le> 1"
      "Called FindToArray (GaveCount 0) \<in> set evs2 \<Longrightarrow>
          (\<exists>stk. res = Inl (CustomError ''No documents found in MongoDB'' ''NoDataError'' stk)) \<and>
          calls_of FromConnectionString evs2 = 0 \<and> calls_of GetContainerClient evs2 = 0 \<and>
          calls_of ContainerExists evs2 = 0 \<and> calls_of GetBlockBlobClient evs2 = 0 \<and>
          calls_of UploadStream evs2 = 0"
      "Called ContainerExists (GaveBool False) \<in> set evs2 \<Longrightarrow>
          (\<exists>stk. res = Inl (CustomError
             (''Container '' @ [dquote] @ text_of (BlobContainerName env) @ [dquote] @ '' does not exist'')
             ''ContainerNotFoundError'' stk)) \<and>
          calls_of GetBlockBlobClient evs2 = 0 \<and> calls_of UploadStream evs2 = 0"
      "calls_of UploadStream evs2 \<noteq> 0 \<Longrightarrow> Called ContainerExists (GaveBool True) \<in> set evs2"
      "(res = Inr () \<and> evs3 = []) \<or>
       (\<exists>e l. res = Inl e \<and>
          evs3 = [LogError (''Error occurred: '' @ err_message e),
                  LogError (''Error stack: '' @ err_stack e), LogError l] \<and>
          (instanceof_CustomError e \<longrightarrow> l = ''Custom error type: '' @ err_type e))"
      "evs4 = [Called ClientClose Gave, Log ''MongoDB connection closed''] \<or>
       (\<exists>e. evs4 = [Called ClientClose (Threw (Thrown e)),
          LogError (''Error occurred while closing MongoDB connection: '' @ lib_message e)])"
proof -
  let ?start = "Log (''JavaScript timer trigger function started: '' @ clock co (world st))"
  let ?fr0 = "\<lparr>world = world st, trace = trace st @ [?start], client = None\<rparr>"
  obtain res fr1 where tb: "try_block co env (clock co (world st)) ?fr0 = (res, fr1)"
    by (cases "try_block co env (clock co (world st)) ?fr0")
  obtain r2 fr2 where tc: "try_catch (try_block co env (clock co (world st))) catch_block ?fr0 = (r2, fr2)"
    by (cases "try_catch (try_block co env (clock co (world st))) catch_block ?fr0")
  obtain r3 fr3 where fb: "finally_block co fr2 = (r3, fr3)" by (cases "finally_block co fr2")
  from finally_block_returns [of co fr2] fb have r3: "r3 = Inr ()" by simp
  have fin: "trace (snd (module_exports co env st)) = trace fr3"
    by (simp only: module_exports_valid [OF valid] try_catch_finally_def tc fb r3 prod.case sum.case
        snd_conv state.select_convs)
  have catch: "(res = Inr () \<and> fr2 = fr1) \<or>
      (\<exists>e l. res = Inl e \<and>
         fr2 = fr1\<lparr>trace := trace fr1 @ [LogError (''Error occurred: '' @ err_message e),
                  LogError (''Error stack: '' @ err_stack e), LogError l]\<rparr> \<and>
         (instanceof_CustomError e \<longrightarrow> l = ''Custom error type: '' @ err_type e))"
  proof (cases res)
    case (Inr u)
    with tb tc show ?thesis by (simp add: try_catch_def)
  next
    case (Inl e)
    with tb tc have "fr2 = snd (catch_block e fr1)" by (simp add: try_catch_def)
    then show ?thesis unfolding catch_block_run using Inl by auto
  qed
  from tb show ?thesis
  proof (cases rule: try_block_anatomy)
    case (refused evs1 e)
    from catch refused(3) obtain l where
      fr2: "fr2 = fr1\<lparr>trace := trace fr1 @ [LogError (''Error occurred: '' @ err_message e),
                  LogError (''Error stack: '' @ err_stack e), LogError l]\<rparr>"
      by auto
    have "client fr2 = None" by (subst fr2) (simp add: refused(2))
    with fb finally_block_none have "fr3 = fr2" by (metis snd_conv)
    then have "trace (snd (module_exports co env st)) =
         trace st @ ?start # evs1 @ [LogError (''Error occurred: '' @ err_message e),
                   LogError (''Error stack: '' @ err_stack e), LogError l]"
      using fin by (subst (asm) fr2) (simp add: refused(1))
    then show ?thesis using refused(4,5) by (rule that(1))
  next
    case (connected evs1 evs2 c)
    from catch obtain evs3 where
      c3: "trace fr2 = trace fr1 @ evs3" "client fr2 = client fr1" and
      c3': "(res = Inr () \<and> evs3 = []) \<or>
       (\<exists>e l. res = Inl e \<and>
          evs3 = [LogError (''Error occurred: '' @ err_message e),
                  LogError (''Error stack: '' @ err_stack e), LogError l] \<and>
          (instanceof_CustomError e \<longrightarrow> l = ''Custom error type: '' @ err_type e))"
    proof (elim disjE exE conjE)
      assume "res = Inr ()" "fr2 = fr1"
      then show ?thesis by (intro that [of "[]"]) simp_all
    next
      fix e l
      assume a: "res = Inl e" "fr2 = fr1\<lparr>trace := trace fr1 @ [LogError (''Error occurred: '' @ err_message e),
                  LogError (''Error stack: '' @ err_stack e), LogError l]\<rparr>"
        "instanceof_CustomError e \<longrightarrow> l = ''Custom error type: '' @ err_type e"
      show ?thesis
        by (rule that [of "[LogError (''Error occurred: '' @ err_message e),
                  LogError (''Error stack: '' @ err_stack e), LogError l]"])
           (use a in \<open>simp_all\<close>)
    qed
    have cl: "client fr2 = Some c" using c3(2) connected(2) by simp
    obtain evs4 where
      c4: "trace fr3 = trace fr2 @ evs4" and
      c4': "evs4 = [Called ClientClose Gave, Log ''MongoDB connection closed''] \<or>
       (\<exists>e. evs4 = [Called ClientClose (Threw (Thrown e)),
          LogError (''Error occurred while closing MongoDB connection: '' @ lib_message e)])"
    proof -
      obtain y w' where k: "client_close co c (world fr2) = (y, w')"
        by (cases "client_close co c (world fr2)")
      show ?thesis
      proof (cases y)
        case (Inl e)
        with finally_block_some [OF cl, of co] k fb
        have "trace fr3 = trace fr2 @ [Called ClientClose (Threw (Thrown e)),
          LogError (''Error occurred while closing MongoDB connection: '' @ lib_message e)]"
          by auto
        then show ?thesis by (rule that) blast
      next
        case (Inr u)
        with finally_block_some [OF cl, of co] k fb
        have "trace fr3 = trace fr2 @ [Called ClientClose Gave, Log ''MongoDB connection closed'']"
          by auto
        then show ?thesis by (rule that) blast
      qed
    qed
    have "trace (snd (module_exports co env st)) = trace st @ ?start # evs1 @ evs2 @ evs3 @ evs4"
      using fin c4 c3(1) connected(1) by simp
    then show ?thesis
      using connected(3-6) connected(7-9) c3' c4'
      by (rule that(2))
  qed
qed

lemma calls_of_connect:
  "list_all connect_event evs \<Longrightarrow> n \<noteq> MongoClientNew \<Longrightarrow> n \<noteq> ClientConnect \<Longrightarrow> calls_of n evs = 0"
  by (induction evs) (auto simp: calls_of_Cons calls_of_Nil split: event.splits)

lemma calls_of_export:
  "list_all export_event evs \<Longrightarrow>
   n = MongoClientNew \<or> n = ClientConnect \<or> n = ClientClose \<or> n = Operation \<Longrightarrow> calls_of n evs = 0"
  by (induction evs) (auto simp: calls_of_Cons calls_of_Nil split: event.splits)

lemma connect_event_mem: "list_all connect_event evs \<Longrightarrow> ev \<in> set evs \<Longrightarrow> connect_event ev"
  by (simp add: list_all_iff)

lemma export_event_mem: "list_all export_event evs \<Longrightarrow> ev \<in> set evs \<Longrightarrow> export_event ev"
  by (simp add: list_all_iff)

lemma calls_of_mem: "Called n ob \<in> set evs \<Longrightarrow> calls_of n evs \<noteq> 0"
  by (induction evs) (auto simp: calls_of_Cons calls_of_Nil)

lemma fetch_empty:
  "find_toArray co collection (world st) = (Inr [], w') \<Longrightarrow>
   fetchDataFromMongoDB co collection st =
     (Inl (CustomError ''No documents found in MongoDB'' ''NoDataError'' (stack_trace co w')),
      st\<lparr>world := w', trace := trace st @ [Called FindToArray (GaveCount 0)]\<rparr>)"
  by (simp add: fetchDataFromMongoDB_def seq_def call_def lib_def throw_def)

lemma fetch_some:
  "find_toArray co collection (world st) = (Inr (d # ds), w') \<Longrightarrow>
   fetchDataFromMongoDB co collection st =
     (Inr (d # ds), st\<lparr>world := w', trace := trace st @ [Called FindToArray (GaveCount (Suc (length ds)))]\<rparr>)"
  by (simp add: fetchDataFromMongoDB_def seq_def call_def lib_def ret_def)

lemma fetch_throws:
  "find_toArray co collection (world st) = (Inl e, w') \<Longrightarrow>
   fetchDataFromMongoDB co collection st =
     (Inl (Thrown e), st\<lparr>world := w', trace := trace st @ [Called FindToArray (Threw (Thrown e))]\<rparr>)"
  by (simp add: fetchDataFromMongoDB_def seq_def call_def lib_def)

lemma fetch_no_data_iff:
  "(\<exists>m stk. fst (fetchDataFromMongoDB co collection st) = Inl (CustomError m ''NoDataError'' stk)) \<longleftrightarrow>
   (\<exists>w'. find_toArray co collection (world st) = (Inr [], w'))"
proof -
  obtain r w' where f: "find_toArray co collection (world st) = (r, w')"
    by (cases "find_toArray co collection (world st)")
  show ?thesis
  proof (cases r)
    case (Inl e)
    with f fetch_throws [of co collection st e w'] show ?thesis by simp
  next
    case (Inr ds)
    show ?thesis
    proof (cases ds)
      case Nil
      with f Inr fetch_empty [of co collection st w'] show ?thesis by simp
    next
      case (Cons d ds')
      with f Inr fetch_some [of co collection st d ds' w'] show ?thesis by simp
    qed
  qed
qed

lemma run_logs_error:
  assumes valid: "\<not> (falsy (MongoDBAtlasConnectionString env) \<or> falsy (DatabaseName env) \<or>
     falsy (CollectionName env) \<or> falsy (AzureBlobStorageConnectionString env) \<or>
     falsy (BlobContainerName env))"
    and tb: "try_block co env (clock co (world st))
       \<lparr>world = world st,
        trace = trace st @
          [Log (''JavaScript timer trigger function started: '' @ clock co (world st))],
        client = None\<rparr> = (Inl e, fr1)"
  shows "\<exists>evs. trace (snd (module_exports co env st)) = trace fr1 @
           [LogError (''Error occurred: '' @ err_message e),
            LogError (''Error stack: '' @ err_stack e),
            LogError (if instanceof_CustomError e then ''Custom error type: '' @ err_type e
              else if err_name e = ''MongoServerSelectionError'' then
                ''Failed to select a MongoDB server. Check your network settings and connection string.''
              else if err_name e = ''MongoNetworkError'' then
                ''MongoDB network error. Ensure your MongoDB Atlas IP whitelist ''
                  @ ''includes your function app's IP address.''
              else ''An unexpected error occurred.'')] @ evs"
proof -
  let ?fr0 = "\<lparr>world = world st,
        trace = trace st @
          [Log (''JavaScript timer trigger function started: '' @ clock co (world st))],
        client = None\<rparr>"
  let ?fr2 = "snd (catch_block e fr1)"
  have tc: "try_catch (try_block co env (clock co (world st))) catch_block ?fr0 = (Inr (), ?fr2)"
    by (simp only: try_catch_def tb prod.case sum.case catch_block_run snd_conv)
  obtain r3 fr3 where fb: "finally_block co ?fr2 = (r3, fr3)"
    by (cases "finally_block co ?fr2")
  from finally_block_returns [of co ?fr2] fb have r3: "r3 = Inr ()" by simp
  have fin: "trace (snd (module_exports co env st)) = trace fr3"
    by (simp only: module_exports_valid [OF valid] try_catch_finally_def tc fb r3 prod.case sum.case
        snd_conv state.select_convs)
  from finally_block_extends [of co ?fr2] fb obtain evs where "trace fr3 = trace ?fr2 @ evs"
    by auto
  with fin show ?thesis
    unfolding catch_block_run by simp
qed

text \<open>
  Concrete runs with the test doubles, computed by unfolding the definitions.
\<close>

lemmas run_defs =
  module_exports_def try_catch_finally_def try_catch_def try_block_def after_connect_def
  retryOperation_def retry_loop.simps connectToMongoDB_def fetchDataFromMongoDB_def
  generateCSV_def uploadToBlob_def finally_block_def catch_block_def
  seq_def ret_def throw_def log_def log_error_def call_def lib_def gave_def sleep_def
  double_def settings_def two_records_def falsy_def text_of_def Let_def
  json2csv_parse_def unlines_def csv_lines_def csv_header_def csv_row_def cell_def quote_def
  Object_keys_def show_int_def show_nat.simps dquote_def newline_def refused_def close_failed_def

lemma run_refused:
  "module_exports (double 3 two_records True True) settings \<lparr>world = 0, trace = []\<rparr> =
   (Inr (),
    \<lparr>world = 3,
     trace =
       [Log ''JavaScript timer trigger function started: 2024-05-01T00:00:00.000Z'',
        Called MongoClientNew Gave, Called ClientConnect (Threw (Thrown refused)),
        Sleep 1000,
        Called MongoClientNew Gave, Called ClientConnect (Threw (Thrown refused)),
        Sleep 1000,
        Called MongoClientNew Gave, Called ClientConnect (Threw (Thrown refused)),
        LogError ''Error occurred: connection refused'',
        LogError ''Error stack: at connect'',
        LogError (''MongoDB network error. Ensure your MongoDB Atlas IP whitelist ''
                   @ ''includes your function app's IP address.'')]\<rparr>)"
  by (simp add: run_defs)

lemma try_refused:
  "fst (try_block (double 3 two_records True True) settings
          (clock (double 3 two_records True True) (world \<lparr>world = 0::nat, trace = []\<rparr>))
          \<lparr>world = world \<lparr>world = 0::nat, trace = []\<rparr>,
           trace = trace \<lparr>world = 0::nat, trace = []\<rparr> @
             [Log (''JavaScript timer trigger function started: '' @
                clock (double 3 two_records True True) (world \<lparr>world = 0::nat, trace = []\<rparr>))],
           client = None\<rparr>) = Inl (Thrown refused)"
  by (simp add: run_defs)

lemma run_closing_fails:
  "module_exports (double 1 two_records True False) settings \<lparr>world = 0, trace = []\<rparr> =
   (Inr (),
    \<lparr>world = 2,
     trace =
       [Log ''JavaScript timer trigger function started: 2024-05-01T00:00:00.000Z'',
        Called MongoClientNew Gave, Called ClientConnect (Threw (Thrown refused)),
        Sleep 1000,
        Called MongoClientNew Gave, Called ClientConnect Gave,
        Log ''Connected to MongoDB successfully'', Called ClientDb Gave,
        Called DbCollection Gave, Called FindToArray (GaveCount 2),
        Log ''Retrieved 2 documents from MongoDB'',
        Log ''Generated CSV with size: 16 bytes'',
        Called FromConnectionString Gave, Called GetContainerClient Gave,
        Called ContainerExists (GaveBool True),
        Called GetBlockBlobClient Gave, Called UploadStream Gave,
        Log ''CSV file uploaded successfully to Blob Storage: data-export-2024-05-01T00:00:00.000Z.csv'',
        Log ''Function execution completed successfully'',
        Called ClientClose (Threw (Thrown close_failed)),
        LogError ''Error occurred while closing MongoDB connection: socket already closed'']\<rparr>)"
  by (simp add: run_defs)

lemma run_no_data:
  "module_exports (double 0 [] True True) settings \<lparr>world = 0, trace = []\<rparr> =
   (Inr (),
    \<lparr>world = 1,
     trace =
       [Log ''JavaScript timer trigger function started: 2024-05-01T00:00:00.000Z'',
        Called MongoClientNew Gave, Called ClientConnect Gave,
        Log ''Connected to MongoDB successfully'', Called ClientDb Gave,
        Called DbCollection Gave, Called FindToArray (GaveCount 0),
        LogError ''Error occurred: No documents found in MongoDB'',
        LogError ''Error stack: at index.js'',
        LogError ''Custom error type: NoDataError'',
        Called ClientClose Gave, Log ''MongoDB connection closed'']\<rparr>)"
  by (simp add: run_defs)

lemma run_no_container:
  "module_exports (double 0 two_records False True) settings \<lparr>world = 0, trace = []\<rparr> =
   (Inr (),
    \<lparr>world = 1,
     trace =
       [Log ''JavaScript timer trigger function started: 2024-05-01T00:00:00.000Z'',
        Called MongoClientNew Gave, Called ClientConnect Gave,
        Log ''Connected to MongoDB successfully'', Called ClientDb Gave,
        Called DbCollection Gave, Called FindToArray (GaveCount 2),
        Log ''Retrieved 2 documents from MongoDB'',
        Log ''Generated CSV with size: 16 bytes'',
        Called FromConnectionString Gave, Called GetContainerClient Gave,
        Called ContainerExists (GaveBool False),
        LogError (''Error occurred: Container '' @ [dquote] @ ''exports'' @ [dquote] @ '' does not exist''),
        LogError ''Error stack: at index.js'',
        LogError ''Custom error type: ContainerNotFoundError'',
        Called ClientClose Gave, Log ''MongoDB connection closed'']\<rparr>)"
  by (simp add: run_defs)

lemma run_unset:
  "module_exports (double 0 two_records True True) (settings\<lparr>DatabaseName := None\<rparr>)
     \<lparr>world = 0, trace = []\<rparr> =
   (Inr (),
    \<lparr>world = 0,
     trace =
       [Log ''JavaScript timer trigger function started: 2024-05-01T00:00:00.000Z'',
        LogError ''Missing required environment variables'']\<rparr>)"
  by (simp add: run_defs)

text \<open>
  Nothing before the \<^verbatim>\<open>finally\<close> block is a call of \<^verbatim>\<open>client.close\<close>, and the
  \<^verbatim>\<open>try\<close> and \<^verbatim>\<open>catch\<close> blocks do not depend on what that call does.
\<close>

lemma connect_not_close: "list_all connect_event evs \<Longrightarrow> list_all (\<lambda>ev. \<not> close_call ev) evs"
  by (induction evs) (auto elim: connect_event.elims)

lemma export_not_close: "list_all export_event evs \<Longrightarrow> list_all (\<lambda>ev. \<not> close_call ev) evs"
  by (induction evs) (auto elim: export_event.elims)

lemma connect_close_free [simp]:
  "connectToMongoDB (co\<lparr>client_close := f\<rparr>) = connectToMongoDB co"
  by (simp add: fun_eq_iff connectToMongoDB_def)

lemma fetch_close_free [simp]:
  "fetchDataFromMongoDB (co\<lparr>client_close := f\<rparr>) = fetchDataFromMongoDB co"
  by (simp add: fun_eq_iff fetchDataFromMongoDB_def cong: if_cong)

lemma generate_close_free [simp]:
  "generateCSV (co\<lparr>client_close := f\<rparr>) = generateCSV co"
  by (simp add: fun_eq_iff generateCSV_def cong: list.case_cong sum.case_cong)

lemma upload_close_free [simp]:
  "uploadToBlob (co\<lparr>client_close := f\<rparr>) = uploadToBlob co"
  by (simp add: fun_eq_iff uploadToBlob_def)

lemma after_connect_close_free [simp]:
  "after_connect (co\<lparr>client_close := f\<rparr>) = after_connect co"
  by (simp add: fun_eq_iff after_connect_def cong: if_cong option.case_cong)

lemma try_block_close_free:
  "try_block (co\<lparr>client_close := f\<rparr>) env ts = try_block co env ts"
  by (simp add: try_block_def)

lemma before_finally_no_close:
  assumes tc: "try_catch (try_block co env ts) catch_block fr = (r, fr2)"
  shows "\<exists>evs. trace fr2 = trace fr @ evs \<and> list_all (\<lambda>ev. \<not> close_call ev) evs"
proof -
  obtain res fr1 where tb: "try_block co env ts fr = (res, fr1)"
    by (cases "try_block co env ts fr")
  have "\<exists>evs. trace fr1 = trace fr @ evs \<and> list_all (\<lambda>ev. \<not> close_call ev) evs"
    using tb
  proof (cases rule: try_block_anatomy)
    case (refused evs1 e)
    then show ?thesis by (auto dest: connect_not_close)
  next
    case (connected evs1 evs2 c)
    from connected(3,5) have "list_all (\<lambda>ev. \<not> close_call ev) (evs1 @ evs2)"
      by (auto dest: connect_not_close export_not_close)
    with connected(1) show ?thesis by blast
  qed
  then obtain evs where e: "trace fr1 = trace fr @ evs" "list_all (\<lambda>ev. \<not> close_call ev) evs"
    by blast
  show ?thesis
  proof (cases res)
    case (Inr u)
    with tb tc have "fr2 = fr1" by (simp add: try_catch_def)
    with e show ?thesis by blast
  next
    case (Inl err)
    with tb tc have "fr2 = snd (catch_block err fr1)" by (simp add: try_catch_def)
    then have "trace fr2 = trace fr @ evs @
        [LogError (''Error occurred: '' @ err_message err),
         LogError (''Error stack: '' @ err_stack err),
         LogError (if instanceof_CustomError err then ''Custom error type: '' @ err_type err
           else if err_name err = ''MongoServerSelectionError'' then
             ''Failed to select a MongoDB server. Check your network settings and connection string.''
           else if err_name err = ''MongoNetworkError'' then
             ''MongoDB network error. Ensure your MongoDB Atlas IP whitelist ''
               @ ''includes your function app's IP address.''
           else ''An unexpected error occurred.'')]"
      unfolding catch_block_run using e(1) by simp
    moreover have "list_all (\<lambda>ev. \<not> close_call ev) (evs @
        [LogError (''Error occurred: '' @ err_message err),
         LogError (''Error stack: '' @ err_stack err),
         LogError (if instanceof_CustomError err then ''Custom error type: '' @ err_type err
           else if err_name err = ''MongoServerSelectionError'' then
             ''Failed to select a MongoDB server. Check your network settings and connection string.''
           else if err_name err = ''MongoNetworkError'' then
             ''MongoDB network error. Ensure your MongoDB Atlas IP whitelist ''
               @ ''includes your function app's IP address.''
           else ''An unexpected error occurred.'')])"
      using e(2) by simp
    ultimately show ?thesis by blast
  qed
qed

lemma finally_block_tail:
  "\<exists>fin. trace (snd (finally_block co fr)) = trace fr @ fin \<and>
         takeWhile (\<lambda>ev. \<not> close_call ev) fin = []"
proof (cases "client fr")
  case None
  then show ?thesis by (simp add: finally_block_none)
next
  case (Some c)
  show ?thesis
    unfolding finally_block_some [OF Some]
    by (auto split: prod.splits sum.splits)
qed

lemma takeWhile_prefix:
  "list_all P xs \<Longrightarrow> takeWhile P ys = [] \<Longrightarrow> takeWhile P (xs @ ys) = xs"
  by (induction xs) simp_all

lemma run_before_close:
  fixes co :: "'w collaborators"
  assumes valid: "\<not> (falsy (MongoDBAtlasConnectionString env) \<or> falsy (DatabaseName env) \<or>
     falsy (CollectionName env) \<or> falsy (AzureBlobStorageConnectionString env) \<or>
     falsy (BlobContainerName env))"
  shows "takeWhile (\<lambda>ev. \<not> close_call ev)
           (trace (snd (module_exports co env \<lparr>world = w, trace = []\<rparr>))) =
         trace (snd (try_catch (try_block co env (clock co w)) catch_block
           \<lparr>world = w,
            trace = [Log (''JavaScript timer trigger function started: '' @ clock co w)],
            client = None\<rparr>))"
proof -
  let ?fr0 = "\<lparr>world = w,
            trace = [Log (''JavaScript timer trigger function started: '' @ clock co w)],
            client = None\<rparr>"
  obtain r2 fr2 where tc: "try_catch (try_block co env (clock co w)) catch_block ?fr0 = (r2, fr2)"
    by (cases "try_catch (try_block co env (clock co w)) catch_block ?fr0")
  obtain r3 fr3 where fb: "finally_block co fr2 = (r3, fr3)" by (cases "finally_block co fr2")
  from finally_block_returns [of co fr2] fb have r3: "r3 = Inr ()" by simp
  have "module_exports co env \<lparr>world = w, trace = []\<rparr> =
     (case try_catch_finally (try_block co env (clock co w)) catch_block (finally_block co) ?fr0 of
        (r, fr) \<Rightarrow> (r, \<lparr>world = world fr, trace = trace fr\<rparr>))"
    using module_exports_valid [OF valid, of co "\<lparr>world = w, trace = []\<rparr>"] by simp
  then have fin: "trace (snd (module_exports co env \<lparr>world = w, trace = []\<rparr>)) = trace fr3"
    by (simp only: try_catch_finally_def tc fb r3 prod.case sum.case snd_conv state.select_convs)
  from before_finally_no_close [OF tc] obtain evs where
    b: "trace fr2 = trace ?fr0 @ evs" "list_all (\<lambda>ev. \<not> close_call ev) evs"
    by blast
  from finally_block_tail [of co fr2] fb obtain tail where
    t: "trace fr3 = trace fr2 @ tail" "takeWhile (\<lambda>ev. \<not> close_call ev) tail = []"
    by auto
  have "list_all (\<lambda>ev. \<not> close_call ev) (trace fr2)"
    using b by simp
  from takeWhile_prefix [OF this t(2)] show ?thesis
    unfolding fin t(1) tc by simp
qed

lemma close_outcome_irrelevant:
  fixes co :: "'w collaborators"
  shows "takeWhile (\<lambda>ev. \<not> close_call ev)
           (trace (snd (module_exports (co\<lparr>client_close := f\<rparr>) env \<lparr>world = w, trace = []\<rparr>))) =
         takeWhile (\<lambda>ev. \<not> close_call ev)
           (trace (snd (module_exports co env \<lparr>world = w, trace = []\<rparr>)))"
proof (cases "falsy (MongoDBAtlasConnectionString env) \<or> falsy (DatabaseName env) \<or>
     falsy (CollectionName env) \<or> falsy (AzureBlobStorageConnectionString env) \<or>
     falsy (BlobContainerName env)")
  case True
  show ?thesis
    unfolding missing_trace [OF True] by simp
next
  case False
  show ?thesis
    unfolding run_before_close [OF False] try_block_close_free by simp
qed

lemma disconnect_counts:
  fixes co :: "'w collaborators" and env :: process_env and w :: 'w
  defines "tr \<equiv> trace (snd (module_exports co env \<lparr>world = w, trace = []\<rparr>))"
  shows "(Called ClientConnect Gave \<in> set tr \<longrightarrow> calls_of ClientClose tr = 1) \<and>
         (Called ClientConnect Gave \<notin> set tr \<longrightarrow> calls_of ClientClose tr = 0) \<and>
         (\<forall>e. Called ClientClose (Threw e) \<in> set tr \<longrightarrow>
            LogError (''Error occurred while closing MongoDB connection: '' @ err_message e) \<in> set tr) \<and>
         fst (module_exports co env \<lparr>world = w, trace = []\<rparr>) = Inr ()"
proof (cases "falsy (MongoDBAtlasConnectionString env) \<or> falsy (DatabaseName env) \<or>
     falsy (CollectionName env) \<or> falsy (AzureBlobStorageConnectionString env) \<or>
     falsy (BlobContainerName env)")
  case True
  from missing_trace [OF True, of co "\<lparr>world = w, trace = []\<rparr>"]
  show ?thesis
    unfolding tr_def by (simp add: calls_of_def module_exports_fulfils)
next
  case False
  then show ?thesis
  proof (cases rule: run_anatomy [where co = co and st = "\<lparr>world = w, trace = []\<rparr>"])
    case (refused evs1 e l)
    have "calls_of ClientClose evs1 = 0" using refused(2) by (simp add: calls_of_connect)
    moreover have "Called ClientClose ob \<notin> set evs1" for ob
      using connect_event_mem [OF refused(2), of "Called ClientClose ob"] by auto
    ultimately show ?thesis
      unfolding tr_def refused(1) using refused(3)
      by (simp add: calls_of_append calls_of_Cons calls_of_Nil module_exports_fulfils)
  next
    case (connected evs1 evs2 evs3 evs4 res)
    have n1: "calls_of ClientClose evs1 = 0" using connected(2) by (simp add: calls_of_connect)
    have n2: "calls_of ClientClose evs2 = 0" using connected(4) by (simp add: calls_of_export)
    have m1: "Called ClientClose ob \<notin> set evs1" for ob
      using connect_event_mem [OF connected(2), of "Called ClientClose ob"] by auto
    have m2: "Called ClientClose ob \<notin> set evs2" for ob
      using export_event_mem [OF connected(4), of "Called ClientClose ob"] by auto
    have n3: "calls_of ClientClose evs3 = 0" "Called ClientClose ob \<notin> set evs3" for ob
      using connected(9) by (auto simp: calls_of_Cons calls_of_Nil)
    from connected(10) show ?thesis
      unfolding tr_def connected(1) using connected(3) n1 n2 n3 m1 m2
      by (auto simp: calls_of_append calls_of_Cons calls_of_Nil module_exports_fulfils)
  qed
qed

text \<open>
  C6. When one of the five variables is absent or empty, the function logs its start and
  the error line and returns: the world is untouched, no collaborator is called, nothing
  is thrown.
\<close>

theorem missing_configuration:
  assumes "falsy (MongoDBAtlasConnectionString env) \<or> falsy (DatabaseName env) \<or>
     falsy (CollectionName env) \<or> falsy (AzureBlobStorageConnectionString env) \<or>
     falsy (BlobContainerName env)"
  shows "module_exports co env st =
           (Inr (), st\<lparr>trace := trace st @
              [Log (''JavaScript timer trigger function started: '' @ clock co (world st)),
               LogError ''Missing required environment variables'']\<rparr>) \<and>
         (\<forall>n. calls_of n (trace (snd (module_exports co env st))) = calls_of n (trace st))"
proof
  show "module_exports co env st =
           (Inr (), st\<lparr>trace := trace st @
              [Log (''JavaScript timer trigger function started: '' @ clock co (world st)),
               LogError ''Missing required environment variables'']\<rparr>)"
    using assms by (rule module_exports_missing)
  show "\<forall>n. calls_of n (trace (snd (module_exports co env st))) = calls_of n (trace st)"
    unfolding missing_trace [OF assms] by (simp add: calls_of_append calls_of_Cons calls_of_Nil)
qed

theorem missing_configuration_witness:
  "falsy (DatabaseName (settings\<lparr>DatabaseName := None\<rparr>)) \<and>
   module_exports (double 0 two_records True True) (settings\<lparr>DatabaseName := None\<rparr>)
       \<lparr>world = 0, trace = []\<rparr> =
     (Inr (),
      \<lparr>world = 0,
       trace =
         [Log ''JavaScript timer trigger function started: 2024-05-01T00:00:00.000Z'',
          LogError ''Missing required environment variables'']\<rparr>)"
proof -
  have f: "falsy (DatabaseName (settings\<lparr>DatabaseName := None\<rparr>))"
    by (simp add: falsy_def)
  then have "falsy (MongoDBAtlasConnectionString (settings\<lparr>DatabaseName := None\<rparr>)) \<or>
     falsy (DatabaseName (settings\<lparr>DatabaseName := None\<rparr>)) \<or>
     falsy (CollectionName (settings\<lparr>DatabaseName := None\<rparr>)) \<or>
     falsy (AzureBlobStorageConnectionString (settings\<lparr>DatabaseName := None\<rparr>)) \<or>
     falsy (BlobContainerName (settings\<lparr>DatabaseName := None\<rparr>))"
    by blast
  from missing_configuration [OF this, of "double 0 two_records True True"
      "\<lparr>world = 0, trace = []\<rparr>"] f
  show ?thesis by (simp add: double_def)
qed

text \<open>
  C9. The promise of the exported function is always fulfilled, never rejected. When the
  configuration is complete and the \<^verbatim>\<open>try\<close> block throws, at whatever stage, the error's
  message and stack are logged, and so is the line of its class: the type of a
  \<open>CustomError\<close>, the hint for one of the two MongoDB error names, or the line for an
  unexpected error.
\<close>

theorem errors_are_swallowed:
  fixes co :: "'w collaborators" and env :: process_env and st :: "'w state"
  defines "tr \<equiv> trace (snd (module_exports co env st))"
  shows "fst (module_exports co env st) = Inr () \<and>
         (\<not> (falsy (MongoDBAtlasConnectionString env) \<or> falsy (DatabaseName env) \<or>
              falsy (CollectionName env) \<or> falsy (AzureBlobStorageConnectionString env) \<or>
              falsy (BlobContainerName env)) \<longrightarrow>
          (\<forall>e fr1.
             try_block co env (clock co (world st))
               \<lparr>world = world st,
                trace = trace st @
                  [Log (''JavaScript timer trigger function started: '' @ clock co (world st))],
                client = None\<rparr> = (Inl e, fr1) \<longrightarrow>
             LogError (''Error occurred: '' @ err_message e) \<in> set tr \<and>
             LogError (''Error stack: '' @ err_stack e) \<in> set tr \<and>
             LogError (if instanceof_CustomError e then ''Custom error type: '' @ err_type e
               else if err_name e = ''MongoServerSelectionError'' then
                 ''Failed to select a MongoDB server. Check your network settings and connection string.''
               else if err_name e = ''MongoNetworkError'' then
                 ''MongoDB network error. Ensure your MongoDB Atlas IP whitelist ''
                   @ ''includes your function app's IP address.''
               else ''An unexpected error occurred.'') \<in> set tr))"
proof (intro conjI allI impI)
  show "fst (module_exports co env st) = Inr ()" by (rule module_exports_fulfils)
next
  fix e fr1
  assume valid: "\<not> (falsy (MongoDBAtlasConnectionString env) \<or> falsy (DatabaseName env) \<or>
              falsy (CollectionName env) \<or> falsy (AzureBlobStorageConnectionString env) \<or>
              falsy (BlobContainerName env))"
    and tb: "try_block co env (clock co (world st))
               \<lparr>world = world st,
                trace = trace st @
                  [Log (''JavaScript timer trigger function started: '' @ clock co (world st))],
                client = None\<rparr> = (Inl e, fr1)"
  from run_logs_error [OF valid tb] obtain evs where
    t: "tr = trace fr1 @
           [LogError (''Error occurred: '' @ err_message e),
            LogError (''Error stack: '' @ err_stack e),
            LogError (if instanceof_CustomError e then ''Custom error type: '' @ err_type e
              else if err_name e = ''MongoServerSelectionError'' then
                ''Failed to select a MongoDB server. Check your network settings and connection string.''
              else if err_name e = ''MongoNetworkError'' then
                ''MongoDB network error. Ensure your MongoDB Atlas IP whitelist ''
                  @ ''includes your function app's IP address.''
              else ''An unexpected error occurred.'')] @ evs"
    unfolding tr_def by blast
  show "LogError (''Error occurred: '' @ err_message e) \<in> set tr"
    unfolding t by simp
  show "LogError (''Error stack: '' @ err_stack e) \<in> set tr"
    unfolding t by simp
  show "LogError (if instanceof_CustomError e then ''Custom error type: '' @ err_type e
               else if err_name e = ''MongoServerSelectionError'' then
                 ''Failed to select a MongoDB server. Check your network settings and connection string.''
               else if err_name e = ''MongoNetworkError'' then
                 ''MongoDB network error. Ensure your MongoDB Atlas IP whitelist ''
                   @ ''includes your function app's IP address.''
               else ''An unexpected error occurred.'') \<in> set tr"
    unfolding t by simp
qed

theorem errors_are_swallowed_witness:
  "\<not> (falsy (MongoDBAtlasConnectionString settings) \<or> falsy (DatabaseName settings) \<or>
      falsy (CollectionName settings) \<or> falsy (AzureBlobStorageConnectionString settings) \<or>
      falsy (BlobContainerName settings)) \<and>
   fst (try_block (double 3 two_records True True) settings
          (clock (double 3 two_records True True) (world \<lparr>world = 0::nat, trace = []\<rparr>))
          \<lparr>world = world \<lparr>world = 0::nat, trace = []\<rparr>,
           trace = trace \<lparr>world = 0::nat, trace = []\<rparr> @
             [Log (''JavaScript timer trigger function started: '' @
                clock (double 3 two_records True True) (world \<lparr>world = 0::nat, trace = []\<rparr>))],
           client = None\<rparr>) = Inl (Thrown refused) \<and>
   fst (module_exports (double 3 two_records True True) settings \<lparr>world = 0, trace = []\<rparr>) = Inr () \<and>
   LogError ''Error occurred: connection refused''
     \<in> set (trace (snd (module_exports (double 3 two_records True True) settings
                          \<lparr>world = 0, trace = []\<rparr>)))"
proof -
  have v: "\<not> (falsy (MongoDBAtlasConnectionString settings) \<or> falsy (DatabaseName settings) \<or>
      falsy (CollectionName settings) \<or> falsy (AzureBlobStorageConnectionString settings) \<or>
      falsy (BlobContainerName settings))"
    by (simp add: falsy_def settings_def)
  note t = errors_are_swallowed [of "double 3 two_records True True" settings
      "\<lparr>world = 0, trace = []\<rparr>"]
  from try_refused have tb:
    "try_block (double 3 two_records True True) settings
          (clock (double 3 two_records True True) (world \<lparr>world = 0::nat, trace = []\<rparr>))
          \<lparr>world = world \<lparr>world = 0::nat, trace = []\<rparr>,
           trace = trace \<lparr>world = 0::nat, trace = []\<rparr> @
             [Log (''JavaScript timer trigger function started: '' @
                clock (double 3 two_records True True) (world \<lparr>world = 0::nat, trace = []\<rparr>))],
           client = None\<rparr> =
     (Inl (Thrown refused),
      snd (try_block (double 3 two_records True True) settings
          (clock (double 3 two_records True True) (world \<lparr>world = 0::nat, trace = []\<rparr>))
          \<lparr>world = world \<lparr>world = 0::nat, trace = []\<rparr>,
           trace = trace \<lparr>world = 0::nat, trace = []\<rparr> @
             [Log (''JavaScript timer trigger function started: '' @
                clock (double 3 two_records True True) (world \<lparr>world = 0::nat, trace = []\<rparr>))],
           client = None\<rparr>))"
    by (metis prod.collapse)
  from t [THEN conjunct2, rule_format, OF v tb]
  have "LogError (''Error occurred: '' @ err_message (Thrown refused))
     \<in> set (trace (snd (module_exports (double 3 two_records True True) settings
                          \<lparr>world = 0, trace = []\<rparr>)))"
    by blast
  then have l: "LogError ''Error occurred: connection refused''
     \<in> set (trace (snd (module_exports (double 3 two_records True True) settings
                          \<lparr>world = 0, trace = []\<rparr>)))"
    by (simp add: refused_def)
  from t [THEN conjunct1] v try_refused l show ?thesis by blast
qed

text \<open>
  C8. In a run started with an empty trace: when a connection attempt succeeded,
  \<^verbatim>\<open>client.close\<close> is called exactly once, whatever happened afterwards; when none
  succeeded, it is not called. An error of \<^verbatim>\<open>client.close\<close> is logged and the promise is
  fulfilled all the same. What the run recorded before the call of \<^verbatim>\<open>client.close\<close> does
  not depend on what that call does.
\<close>

theorem disconnect_once:
  fixes co :: "'w collaborators" and env :: process_env and w :: 'w
  defines "tr \<equiv> trace (snd (module_exports co env \<lparr>world = w, trace = []\<rparr>))"
  shows "(Called ClientConnect Gave \<in> set tr \<longrightarrow> calls_of ClientClose tr = 1) \<and>
         (Called ClientConnect Gave \<notin> set tr \<longrightarrow> calls_of ClientClose tr = 0) \<and>
         (\<forall>e. Called ClientClose (Threw e) \<in> set tr \<longrightarrow>
            LogError (''Error occurred while closing MongoDB connection: '' @ err_message e) \<in> set tr) \<and>
         fst (module_exports co env \<lparr>world = w, trace = []\<rparr>) = Inr () \<and>
         (\<forall>f. takeWhile (\<lambda>ev. \<not> close_call ev)
                 (trace (snd (module_exports (co\<lparr>client_close := f\<rparr>) env \<lparr>world = w, trace = []\<rparr>))) =
               takeWhile (\<lambda>ev. \<not> close_call ev) tr)"
  unfolding tr_def
  using disconnect_counts [of co env w] close_outcome_irrelevant [of _ co env w]
  by blast

theorem disconnect_once_witness:
  "Called ClientConnect Gave
     \<in> set (trace (snd (module_exports (double 1 two_records True False) settings
                          \<lparr>world = 0, trace = []\<rparr>))) \<and>
   calls_of ClientClose (trace (snd (module_exports (double 1 two_records True False) settings
                          \<lparr>world = 0, trace = []\<rparr>))) = 1 \<and>
   Called ClientClose (Threw (Thrown close_failed))
     \<in> set (trace (snd (module_exports (double 1 two_records True False) settings
                          \<lparr>world = 0, trace = []\<rparr>))) \<and>
   LogError ''Error occurred while closing MongoDB connection: socket already closed''
     \<in> set (trace (snd (module_exports (double 1 two_records True False) settings
                          \<lparr>world = 0, trace = []\<rparr>))) \<and>
   Called ClientConnect Gave
     \<notin> set (trace (snd (module_exports (double 3 two_records True True) settings
                          \<lparr>world = 0, trace = []\<rparr>))) \<and>
   calls_of ClientClose (trace (snd (module_exports (double 3 two_records True True) settings
                          \<lparr>world = 0, trace = []\<rparr>))) = 0"
proof -
  note a = disconnect_once [of "double 1 two_records True False" settings 0]
  note b = disconnect_once [of "double 3 two_records True True" settings 0]
  have h1: "Called ClientConnect Gave
     \<in> set (trace (snd (module_exports (double 1 two_records True False) settings
                          \<lparr>world = 0, trace = []\<rparr>)))"
    unfolding run_closing_fails by simp
  have h2: "Called ClientClose (Threw (Thrown close_failed))
     \<in> set (trace (snd (module_exports (double 1 two_records True False) settings
                          \<lparr>world = 0, trace = []\<rparr>)))"
    unfolding run_closing_fails by simp
  have h3: "Called ClientConnect Gave
     \<notin> set (trace (snd (module_exports (double 3 two_records True True) settings
                          \<lparr>world = 0, trace = []\<rparr>)))"
    unfolding run_refused by simp
  from a h1 have c1: "calls_of ClientClose (trace (snd (module_exports
      (double 1 two_records True False) settings \<lparr>world = 0, trace = []\<rparr>))) = 1"
    by blast
  from a h2 have "LogError (''Error occurred while closing MongoDB connection: '' @
        err_message (Thrown close_failed))
     \<in> set (trace (snd (module_exports (double 1 two_records True False) settings
                          \<lparr>world = 0, trace = []\<rparr>)))"
    by blast
  then have c2: "LogError ''Error occurred while closing MongoDB connection: socket already closed''
     \<in> set (trace (snd (module_exports (double 1 two_records True False) settings
                          \<lparr>world = 0, trace = []\<rparr>)))"
    by (simp add: close_failed_def)
  from b h3 have c3: "calls_of ClientClose (trace (snd (module_exports
      (double 3 two_records True True) settings \<lparr>world = 0, trace = []\<rparr>))) = 0"
    by blast
  from h1 c1 h2 c2 h3 c3 show ?thesis by blast
qed

text \<open>
  C3. \<open>fetchDataFromMongoDB\<close> throws the \<open>CustomError\<close> of type \<^verbatim>\<open>NoDataError\<close> when the
  collection gives an empty array, and throws an error of that type in no other case. In a
  run started with an empty trace in which the fetch gave no record, the error is logged
  with its type, the fetch was made once, no later collaborator (storage client, container
  probe, upload) was called, and \<^verbatim>\<open>client.close\<close> was called exactly once.
\<close>

theorem no_data_aborts:
  fixes co :: "'w collaborators" and env :: process_env and w :: 'w
    and st :: "('w, 'z) state_scheme"
  defines "tr \<equiv> trace (snd (module_exports co env \<lparr>world = w, trace = []\<rparr>))"
  shows "(\<forall>w'. find_toArray co collection (world st) = (Inr [], w') \<longrightarrow>
            fst (fetchDataFromMongoDB co collection st) =
              Inl (CustomError ''No documents found in MongoDB'' ''NoDataError'' (stack_trace co w'))) \<and>
         ((\<exists>m stk. fst (fetchDataFromMongoDB co collection st) = Inl (CustomError m ''NoDataError'' stk))
            \<longrightarrow> (\<exists>w'. find_toArray co collection (world st) = (Inr [], w'))) \<and>
         (Called FindToArray (GaveCount 0) \<in> set tr \<longrightarrow>
            LogError ''Error occurred: No documents found in MongoDB'' \<in> set tr \<and>
            LogError ''Custom error type: NoDataError'' \<in> set tr \<and>
            calls_of FindToArray tr = 1 \<and>
            calls_of FromConnectionString tr = 0 \<and> calls_of GetContainerClient tr = 0 \<and>
            calls_of ContainerExists tr = 0 \<and> calls_of GetBlockBlobClient tr = 0 \<and>
            calls_of UploadStream tr = 0 \<and>
            calls_of ClientClose tr = 1)"
proof (intro conjI allI impI)
  fix w' assume "find_toArray co collection (world st) = (Inr [], w')"
  then show "fst (fetchDataFromMongoDB co collection st) =
      Inl (CustomError ''No documents found in MongoDB'' ''NoDataError'' (stack_trace co w'))"
    by (simp add: fetch_empty)
next
  assume "\<exists>m stk. fst (fetchDataFromMongoDB co collection st) = Inl (CustomError m ''NoDataError'' stk)"
  then show "\<exists>w'. find_toArray co collection (world st) = (Inr [], w')"
    by (simp only: fetch_no_data_iff)
next
  assume h: "Called FindToArray (GaveCount 0) \<in> set tr"
  have valid: "\<not> (falsy (MongoDBAtlasConnectionString env) \<or> falsy (DatabaseName env) \<or>
     falsy (CollectionName env) \<or> falsy (AzureBlobStorageConnectionString env) \<or>
     falsy (BlobContainerName env))"
  proof
    assume m: "falsy (MongoDBAtlasConnectionString env) \<or> falsy (DatabaseName env) \<or>
     falsy (CollectionName env) \<or> falsy (AzureBlobStorageConnectionString env) \<or>
     falsy (BlobContainerName env)"
    from h show False
      unfolding tr_def missing_trace [OF m] by simp
  qed
  from valid have "LogError ''Error occurred: No documents found in MongoDB'' \<in> set tr \<and>
            LogError ''Custom error type: NoDataError'' \<in> set tr \<and>
            calls_of FindToArray tr = 1 \<and>
            calls_of FromConnectionString tr = 0 \<and> calls_of GetContainerClient tr = 0 \<and>
            calls_of ContainerExists tr = 0 \<and> calls_of GetBlockBlobClient tr = 0 \<and>
            calls_of UploadStream tr = 0 \<and>
            calls_of ClientClose tr = 1"
  proof (cases rule: run_anatomy [where co = co and st = "\<lparr>world = w, trace = []\<rparr>"])
    case (refused evs1 e l)
    from h connect_event_mem [OF refused(2), of "Called FindToArray (GaveCount 0)"]
    have False unfolding tr_def refused(1) by auto
    then show ?thesis ..
  next
    case (connected evs1 evs2 evs3 evs4 res)
    have c1: "calls_of n evs1 = 0" if "n \<noteq> MongoClientNew" "n \<noteq> ClientConnect" for n
      using connected(2) that by (simp add: calls_of_connect)
    have in2: "Called FindToArray (GaveCount 0) \<in> set evs2"
      using h connect_event_mem [OF connected(2), of "Called FindToArray (GaveCount 0)"]
        connected(9,10)
      unfolding tr_def connected(1) by auto
    from connected(6) [OF in2] obtain stk where
      res: "res = Inl (CustomError ''No documents found in MongoDB'' ''NoDataError'' stk)" and
      z: "calls_of FromConnectionString evs2 = 0" "calls_of GetContainerClient evs2 = 0"
         "calls_of ContainerExists evs2 = 0" "calls_of GetBlockBlobClient evs2 = 0"
         "calls_of UploadStream evs2 = 0"
      by blast
    from calls_of_mem [OF in2] connected(5) have one: "calls_of FindToArray evs2 = 1" by simp
    have n2: "calls_of ClientClose evs2 = 0" using connected(4) by (simp add: calls_of_export)
    from connected(9) res obtain l where
      e3: "evs3 = [LogError (''Error occurred: '' @ ''No documents found in MongoDB''),
                  LogError (''Error stack: '' @ stk), LogError (''Custom error type: '' @ ''NoDataError'')]"
      by auto
    from connected(10) show ?thesis
      unfolding tr_def connected(1) e3 using c1 z one n2
      by (auto simp: calls_of_append calls_of_Cons calls_of_Nil)
  qed
  then show "LogError ''Error occurred: No documents found in MongoDB'' \<in> set tr"
    "LogError ''Custom error type: NoDataError'' \<in> set tr"
    "calls_of FindToArray tr = 1"
    "calls_of FromConnectionString tr = 0" "calls_of GetContainerClient tr = 0"
    "calls_of ContainerExists tr = 0" "calls_of GetBlockBlobClient tr = 0"
    "calls_of UploadStream tr = 0"
    "calls_of ClientClose tr = 1"
    by blast+
qed

theorem no_data_aborts_witness:
  "find_toArray (double 0 [] True True) 3 (world \<lparr>world = 0::nat, trace = []\<rparr>) = (Inr [], 0) \<and>
   fst (fetchDataFromMongoDB (double 0 [] True True) 3 \<lparr>world = 0::nat, trace = []\<rparr>) =
     Inl (CustomError ''No documents found in MongoDB'' ''NoDataError'' ''at index.js'') \<and>
   Called FindToArray (GaveCount 0)
     \<in> set (trace (snd (module_exports (double 0 [] True True) settings
                          \<lparr>world = 0, trace = []\<rparr>))) \<and>
   LogError ''Custom error type: NoDataError''
     \<in> set (trace (snd (module_exports (double 0 [] True True) settings
                          \<lparr>world = 0, trace = []\<rparr>))) \<and>
   calls_of FindToArray (trace (snd (module_exports (double 0 [] True True) settings
                          \<lparr>world = 0, trace = []\<rparr>))) = 1 \<and>
   calls_of UploadStream (trace (snd (module_exports (double 0 [] True True) settings
                          \<lparr>world = 0, trace = []\<rparr>))) = 0 \<and>
   calls_of ClientClose (trace (snd (module_exports (double 0 [] True True) settings
                          \<lparr>world = 0, trace = []\<rparr>))) = 1"
proof -
  note t = no_data_aborts [of "double 0 [] True True" 3 "\<lparr>world = 0::nat, trace = []\<rparr>" settings 0]
  have h1: "find_toArray (double 0 [] True True) 3 (world \<lparr>world = 0::nat, trace = []\<rparr>) = (Inr [], 0)"
    by (simp add: double_def)
  from t [THEN conjunct1, rule_format, OF h1]
  have c1: "fst (fetchDataFromMongoDB (double 0 [] True True) 3 \<lparr>world = 0::nat, trace = []\<rparr>) =
     Inl (CustomError ''No documents found in MongoDB'' ''NoDataError'' ''at index.js'')"
    by (simp add: double_def)
  have h2: "Called FindToArray (GaveCount 0)
     \<in> set (trace (snd (module_exports (double 0 [] True True) settings
                          \<lparr>world = 0, trace = []\<rparr>)))"
    unfolding run_no_data by simp
  from t [THEN conjunct2, THEN conjunct2, rule_format, OF h2] h1 c1 h2
  show ?thesis by blast
qed

text \<open>
  C7. In a run started with an empty trace in which the existence probe answered false,
  the error naming the container is logged with its type \<^verbatim>\<open>ContainerNotFoundError\<close>, and
  neither the blob client is asked for nor the upload made. An upload is made only in a run
  in which the probe answered true. The collaborators hold no operation that creates a
  container, the file calling none.
\<close>

theorem container_missing:
  fixes co :: "'w collaborators" and env :: process_env and w :: 'w
  defines "tr \<equiv> trace (snd (module_exports co env \<lparr>world = w, trace = []\<rparr>))"
  shows "(Called ContainerExists (GaveBool False) \<in> set tr \<longrightarrow>
            LogError (''Error occurred: Container '' @ [dquote] @ text_of (BlobContainerName env)
                        @ [dquote] @ '' does not exist'') \<in> set tr \<and>
            LogError ''Custom error type: ContainerNotFoundError'' \<in> set tr \<and>
            calls_of GetBlockBlobClient tr = 0 \<and> calls_of UploadStream tr = 0) \<and>
         (calls_of UploadStream tr \<noteq> 0 \<longrightarrow> Called ContainerExists (GaveBool True) \<in> set tr)"
proof (cases "falsy (MongoDBAtlasConnectionString env) \<or> falsy (DatabaseName env) \<or>
     falsy (CollectionName env) \<or> falsy (AzureBlobStorageConnectionString env) \<or>
     falsy (BlobContainerName env)")
  case True
  show ?thesis
    unfolding tr_def missing_trace [OF True] by (simp add: calls_of_def)
next
  case False
  then show ?thesis
  proof (cases rule: run_anatomy [where co = co and st = "\<lparr>world = w, trace = []\<rparr>"])
    case (refused evs1 e l)
    have "calls_of UploadStream evs1 = 0" using refused(2) by (simp add: calls_of_connect)
    then show ?thesis
      using connect_event_mem [OF refused(2), of "Called ContainerExists (GaveBool False)"]
      unfolding tr_def refused(1)
      by (auto simp: calls_of_append calls_of_Cons calls_of_Nil)
  next
    case (connected evs1 evs2 evs3 evs4 res)
    have c1: "calls_of n evs1 = 0" if "n \<noteq> MongoClientNew" "n \<noteq> ClientConnect" for n
      using connected(2) that by (simp add: calls_of_connect)
    have c3: "calls_of n evs3 = 0" for n
      using connected(9) by (auto simp: calls_of_Cons calls_of_Nil)
    have c4: "calls_of n evs4 = 0" if "n \<noteq> ClientClose" for n
      using connected(10) that by (auto simp: calls_of_Cons calls_of_Nil)
    have tr: "tr = Log (''JavaScript timer trigger function started: '' @ clock co w) #
           evs1 @ evs2 @ evs3 @ evs4"
      unfolding tr_def connected(1) by simp
    have up: "calls_of UploadStream tr = calls_of UploadStream evs2"
      "calls_of GetBlockBlobClient tr = calls_of GetBlockBlobClient evs2"
      unfolding tr by (simp_all add: calls_of_append calls_of_Cons c1 c3 c4)
    have part2: "calls_of UploadStream tr \<noteq> 0 \<longrightarrow> Called ContainerExists (GaveBool True) \<in> set tr"
      using connected(8) unfolding up unfolding tr by simp
    have part1: "LogError (''Error occurred: Container '' @ [dquote] @ text_of (BlobContainerName env)
                        @ [dquote] @ '' does not exist'') \<in> set tr \<and>
            LogError ''Custom error type: ContainerNotFoundError'' \<in> set tr \<and>
            calls_of GetBlockBlobClient tr = 0 \<and> calls_of UploadStream tr = 0"
      if h: "Called ContainerExists (GaveBool False) \<in> set tr"
    proof -
      have in2: "Called ContainerExists (GaveBool False) \<in> set evs2"
        using h connect_event_mem [OF connected(2), of "Called ContainerExists (GaveBool False)"]
          connected(9,10)
        unfolding tr by auto
      from connected(7) [OF in2] obtain stk where
        res: "res = Inl (CustomError
             (''Container '' @ [dquote] @ text_of (BlobContainerName env) @ [dquote] @ '' does not exist'')
             ''ContainerNotFoundError'' stk)" and
        z: "calls_of GetBlockBlobClient evs2 = 0" "calls_of UploadStream evs2 = 0"
        by blast
      from connected(9) res have
        e3: "evs3 = [LogError (''Error occurred: '' @ ''Container '' @ [dquote] @ text_of (BlobContainerName env) @ [dquote] @ '' does not exist''),
                  LogError (''Error stack: '' @ stk), LogError (''Custom error type: '' @ ''ContainerNotFoundError'')]"
        by auto
      show ?thesis
        unfolding up z unfolding tr e3 by simp
    qed
    from part1 part2 show ?thesis by blast
  qed
qed

theorem container_missing_witness:
  "Called ContainerExists (GaveBool False)
     \<in> set (trace (snd (module_exports (double 0 two_records False True) settings
                          \<lparr>world = 0, trace = []\<rparr>))) \<and>
   LogError (''Error occurred: Container '' @ [dquote] @ ''exports'' @ [dquote] @ '' does not exist'')
     \<in> set (trace (snd (module_exports (double 0 two_records False True) settings
                          \<lparr>world = 0, trace = []\<rparr>))) \<and>
   calls_of UploadStream (trace (snd (module_exports (double 0 two_records False True) settings
                          \<lparr>world = 0, trace = []\<rparr>))) = 0 \<and>
   calls_of UploadStream (trace (snd (module_exports (double 1 two_records True False) settings
                          \<lparr>world = 0, trace = []\<rparr>))) \<noteq> 0 \<and>
   Called ContainerExists (GaveBool True)
     \<in> set (trace (snd (module_exports (double 1 two_records True False) settings
                          \<lparr>world = 0, trace = []\<rparr>)))"
proof -
  note a = container_missing [of "double 0 two_records False True" settings 0]
  note b = container_missing [of "double 1 two_records True False" settings 0]
  have h1: "Called ContainerExists (GaveBool False)
     \<in> set (trace (snd (module_exports (double 0 two_records False True) settings
                          \<lparr>world = 0, trace = []\<rparr>)))"
    unfolding run_no_container by simp
  have h2: "calls_of UploadStream (trace (snd (module_exports (double 1 two_records True False) settings
                          \<lparr>world = 0, trace = []\<rparr>))) \<noteq> 0"
    unfolding run_closing_fails by (simp add: calls_of_def)
  from a [THEN conjunct1, rule_format, OF h1]
  have c1: "LogError (''Error occurred: Container '' @ [dquote] @ ''exports'' @ [dquote] @ '' does not exist'')
     \<in> set (trace (snd (module_exports (double 0 two_records False True) settings
                          \<lparr>world = 0, trace = []\<rparr>)))"
    and c2: "calls_of UploadStream (trace (snd (module_exports (double 0 two_records False True) settings
                          \<lparr>world = 0, trace = []\<rparr>))) = 0"
    by (simp_all add: settings_def text_of_def)
  from b [THEN conjunct2, rule_format, OF h2] h1 c1 c2 h2
  show ?thesis by blast
qed

end
